theory Spec2Isabelle
  imports Main "HOL-Library.AList"
begin

section \<open>Numbers and their display\<close>

text \<open>
  A Lox Number is a Python \<open>float\<close>. A finite float is represented by the decimal
  string that Python's \<open>repr\<close> computes for it (the shortest one that reads back as the
  same float): a sign, the significant digits \<open>d1 d2 ... dn\<close> and the position
  \<open>decpt\<close> of the decimal point, for the value \<open>0.d1d2...dn * 10 ^ decpt\<close>.
  Zero has the single digit 0 and \<open>decpt = 1\<close>. So \<open>42.0\<close> is
  \<open>Finite False [4, 2] 2\<close> and \<open>3.5\<close> is \<open>Finite False [3, 5] 1\<close>.
\<close>

datatype pyfloat =
    Finite (negative: bool) (digits: "nat list") (decpt: int)
  | Infinity bool
  | NaN

definition digit_char :: "nat \<Rightarrow> char" where
  "digit_char d = ''0123456789'' ! (d mod 10)"

fun str_nat_aux :: "nat \<Rightarrow> nat \<Rightarrow> string" where
  "str_nat_aux 0 n = []"
| "str_nat_aux (Suc k) n =
     (if n < 10 then [digit_char n] else str_nat_aux k (n div 10) @ [digit_char (n mod 10)])"

text \<open>\<open>str(n)\<close> for a non-negative Python \<open>int\<close>.\<close>

definition str_nat :: "nat \<Rightarrow> string" where
  "str_nat n = str_nat_aux (Suc n) n"

text \<open>The exponent of a float in scientific notation, C's \<open>%+.02d\<close>.\<close>

definition exp_str :: "int \<Rightarrow> string" where
  "exp_str e =
     (if e < 0 then ''-'' else ''+'') @
     (if nat \<bar>e\<bar> < 10 then ''0'' else '''') @ str_nat (nat \<bar>e\<bar>)"

text \<open>
  \<open>str(x)\<close> for a float \<open>x\<close>, which is \<open>repr(x)\<close>: scientific notation when
  \<open>decpt \<le> -4\<close> or \<open>decpt > 16\<close>, positional notation otherwise, where an integral
  value gets the suffix \<open>.0\<close>.
\<close>

fun float_str :: "pyfloat \<Rightarrow> string" where
  "float_str NaN = ''nan''"
| "float_str (Infinity neg) = (if neg then ''-inf'' else ''inf'')"
| "float_str (Finite neg ds p) =
     (if neg then ''-'' else '''') @
     (let cs = map digit_char ds in
      if p \<le> -4 \<or> p > 16 then
        take 1 cs @ (if length cs \<le> 1 then '''' else ''.'' @ drop 1 cs) @ ''e'' @ exp_str (p - 1)
      else if p \<le> 0 then ''0.'' @ replicate (nat (- p)) CHR ''0'' @ cs
      else if nat p < length cs then take (nat p) cs @ ''.'' @ drop (nat p) cs
      else cs @ replicate (nat p - length cs) CHR ''0'' @ ''.0'')"

text \<open>\<open>s.removesuffix(suffix)\<close> of Python.\<close>

definition removesuffix :: "string \<Rightarrow> string \<Rightarrow> string" where
  "removesuffix s suffix =
     (if suffix \<noteq> [] \<and> length suffix \<le> length s \<and> drop (length s - length suffix) s = suffix
      then take (length s - length suffix) s else s)"

text \<open>The branch of \<open>show\<close> for a float: \<open>str(value).removesuffix('.0')\<close>.\<close>

definition show_float :: "pyfloat \<Rightarrow> string" where
  "show_float x = removesuffix (float_str x) ''.0''"

text \<open>\<open>x.is_integer()\<close>: a finite float with no digit after the decimal point.\<close>

fun is_integer :: "pyfloat \<Rightarrow> bool" where
  "is_integer (Finite neg ds p) = list_all (\<lambda>d. d = 0) (drop (nat p) ds)"
| "is_integer _ = False"

text \<open>
  The representation of a float is canonical: at least one digit, each below ten, no
  leading zero and no trailing zero, except for zero itself.
\<close>

fun canonical :: "pyfloat \<Rightarrow> bool" where
  "canonical (Finite neg ds p) =
     (ds \<noteq> [] \<and> list_all (\<lambda>d. d < 10) ds \<and>
      (if list_all (\<lambda>d. d = 0) ds then ds = [0] \<and> p = 1 else hd ds \<noteq> 0 \<and> last ds \<noteq> 0))"
| "canonical _ = True"

definition count_dots :: "string \<Rightarrow> nat" where
  "count_dots s = length (filter (\<lambda>c. c = CHR ''.'') s)"

section \<open>The abstract syntax tree\<close>

text \<open>
  The nodes of \<open>lox/ast.py\<close>. A \<open>Literal\<close> holds a \<open>Value\<close>, which \<open>ast.py\<close> declares
  as \<open>bool | str | float | None\<close>. The \<open>op\<close> of a \<open>BinOp\<close> or \<open>UnaryOp\<close> is one of
  the operator functions of \<open>lox/runtime.py\<close>, named here by a tag. The parameters of a
  \<open>Function\<close> are \<open>Var\<close> nodes, of which only the name is read; its body is a \<open>Block\<close>,
  given by its statements. The methods of a \<open>Class\<close> are \<open>Function\<close> nodes, each given by
  its name, parameters and body; its base is a \<open>Var\<close> or \<open>None\<close>.
\<close>

datatype literal = LNil | LBool bool | LNumber pyfloat | LStr string

datatype binop = OpAdd | OpSub | OpMul | OpTruediv | OpEq | OpNe | OpLt | OpLe | OpGt | OpGe

datatype unop = OpNeg | OpNot

datatype expr =
    BinOp expr expr binop
  | Var string
  | Literal literal
  | And expr expr
  | Or expr expr
  | UnaryOp expr unop
  | Call expr "expr list"
  | This
  | Super string
  | Assign string expr
  | Getattr expr string
  | Setattr expr string expr

datatype stmt =
    ExprStmt expr
  | Print expr
  | Return "expr option"
  | VarDef string expr
  | If expr stmt stmt
  | While expr stmt
  | Block "stmt list"
  | Function string "string list" "stmt list"
  | Class string "(string \<times> string list \<times> stmt list) list" "string option"

section \<open>Runtime values\<close>

text \<open>
  A \<open>Ctx\<close> is a chain of frames; a frame is a mutable dictionary that closures share, so
  the frames live in the state and a \<open>Ctx\<close> is the list of the addresses of its frames,
  innermost first. \<open>LoxFunction\<close> and \<open>LoxClass\<close> objects are never mutated after their
  construction; each carries the identity of the Python object (\<open>fn_id\<close>, \<open>cls_id\<close>),
  drawn from a counter of the state. A \<open>LoxInstance\<close> has a mutable field dictionary, so
  instances live in the state as well and a value refers to one by its address.
  A dictionary is an association list with distinct keys, in insertion order.
\<close>

type_synonym ctx = "nat list"

datatype lox_function =
  LoxFunction (fn_id: nat) (fn_name: string) (fn_params: "string list")
    (fn_body: "stmt list") (fn_ctx: ctx)

datatype lox_class =
  LoxClass (cls_id: nat) (cls_name: string) (cls_methods: "(string \<times> lox_function) list")
    (cls_base: "lox_class option")

datatype val =
    VNil
  | VBool bool
  | VNumber pyfloat
  | VStr string
  | VFunction lox_function
  | VInitFunction lox_function nat
  | VClass lox_class
  | VInstance nat

datatype lox_instance =
  LoxInstance (klass: lox_class) (inst_fields: "(string \<times> val) list")

text \<open>
  The exceptions of the interpreter, by their Python class, with the message where the
  source gives it. \<open>PyAttributeError\<close> and \<open>PyTypeError\<close> are an \<open>AttributeError\<close> and a
  \<open>TypeError\<close> that Python itself raises (the message is Python's). \<open>LoxReturn\<close> carries
  the value of a \<open>return\<close>.
  \<open>Unmodelled\<close> is not an exception: it marks a point where the behaviour is decided by
  Python objects that are not Lox values, or by modules other than \<open>runtime.py\<close> and
  \<open>ast.py\<close>; the model stops there and says nothing about what follows.
\<close>

datatype exn =
    LoxError string
  | TypeError string
  | NameError string
  | AttributeError string
  | PyAttributeError
  | PyTypeError
  | KeyError string
  | LoxReturn val
  | Unmodelled string

record state =
  frames :: "(string \<times> val) list list"
  instances :: "lox_instance list"
  next_id :: nat
  stdout :: "string list"

definition instance_at :: "state \<Rightarrow> nat \<Rightarrow> lox_instance option" where
  "instance_at s i = (if i < length (instances s) then Some (instances s ! i) else None)"

text \<open>\<open>literal_value\<close> reads the Python object of a literal as a runtime value.\<close>

fun literal_value :: "literal \<Rightarrow> val" where
  "literal_value LNil = VNil"
| "literal_value (LBool b) = VBool b"
| "literal_value (LNumber x) = VNumber x"
| "literal_value (LStr t) = VStr t"

section \<open>Display, truthiness and equality\<close>

text \<open>\<open>LoxFunction.__str__\<close>, which \<open>LoxInitFunction\<close> inherits.\<close>

definition function_str :: "lox_function \<Rightarrow> string" where
  "function_str f = (if fn_name f \<noteq> [] then ''<fn '' @ fn_name f @ ''>'' else ''<fn>'')"

text \<open>\<open>LoxInstance.__str__\<close>; an address outside the state has no object to show.\<close>

definition instance_str :: "state \<Rightarrow> nat \<Rightarrow> string" where
  "instance_str s i =
     (case instance_at s i of None \<Rightarrow> [] | Some obj \<Rightarrow> cls_name (klass obj) @ '' instance'')"

fun show_value :: "state \<Rightarrow> val \<Rightarrow> string" where
  "show_value s VNil = ''nil''"
| "show_value s (VBool b) = (if b then ''true'' else ''false'')"
| "show_value s (VNumber x) = show_float x"
| "show_value s (VStr t) = t"
| "show_value s (VFunction f) = function_str f"
| "show_value s (VInitFunction f i) = function_str f"
| "show_value s (VClass c) = cls_name c"
| "show_value s (VInstance i) = instance_str s i"

text \<open>Python's \<open>str(value)\<close>, which the f-strings of the error messages use.\<close>

fun py_str :: "state \<Rightarrow> val \<Rightarrow> string" where
  "py_str s VNil = ''None''"
| "py_str s (VBool b) = (if b then ''True'' else ''False'')"
| "py_str s (VNumber x) = float_str x"
| "py_str s v = show_value s v"

definition lox_print :: "state \<Rightarrow> val \<Rightarrow> state" where
  "lox_print s v = s\<lparr>stdout := stdout s @ [show_value s v]\<rparr>"

fun truthy :: "val \<Rightarrow> bool" where
  "truthy VNil = False"
| "truthy (VBool b) = b"
| "truthy _ = True"

definition not_lox :: "val \<Rightarrow> bool" where
  "not_lox v = (\<not> truthy v)"

text \<open>The Python class of a value, \<open>type(a)\<close>, and its kind in the Lox data model.\<close>

datatype py_type =
  NoneType | PyBool | PyFloat | PyStr | PyLoxFunction | PyLoxInitFunction | PyLoxClass
  | PyLoxInstance

fun type_of :: "val \<Rightarrow> py_type" where
  "type_of VNil = NoneType"
| "type_of (VBool b) = PyBool"
| "type_of (VNumber x) = PyFloat"
| "type_of (VStr t) = PyStr"
| "type_of (VFunction f) = PyLoxFunction"
| "type_of (VInitFunction f i) = PyLoxInitFunction"
| "type_of (VClass c) = PyLoxClass"
| "type_of (VInstance i) = PyLoxInstance"



text \<open>Python's \<open>==\<close> on floats: a NaN equals nothing, the two zeros are equal.\<close>

definition float_is_zero :: "pyfloat \<Rightarrow> bool" where
  "float_is_zero x = (case x of Finite neg ds p \<Rightarrow> list_all (\<lambda>d. d = 0) ds | _ \<Rightarrow> False)"

definition float_eq :: "pyfloat \<Rightarrow> pyfloat \<Rightarrow> bool" where
  "float_eq x y =
     (if x = NaN \<or> y = NaN then False
      else if float_is_zero x \<and> float_is_zero y then True
      else x = y)"

definition float_of_bool :: "bool \<Rightarrow> pyfloat" where
  "float_of_bool b = Finite False [if b then 1 else 0] 1"

text \<open>
  \<open>LoxFunction\<close>, \<open>LoxClass\<close> and \<open>LoxInstance\<close> are dataclasses, and none of them sets
  \<open>eq=False\<close>: their \<open>==\<close> is the generated \<open>__eq__\<close>, which compares the tuples of the
  fields, an item being equal to another when it is the same object or \<open>==\<close> to it.
  For two distinct function objects of the same name and parameters the answer is that
  of \<open>Block.__eq__\<close> and \<open>Ctx.__eq__\<close>, which rest on the modules \<open>node.py\<close> and \<open>ctx.py\<close>.
\<close>

definition function_eq :: "lox_function \<Rightarrow> lox_function \<Rightarrow> exn + bool" where
  "function_eq f g =
     (if fn_id f = fn_id g then Inr True
      else if fn_name f \<noteq> fn_name g \<or> fn_params f \<noteq> fn_params g then Inr False
      else Inl (Unmodelled ''Block.__eq__, Ctx.__eq__''))"

text \<open>\<open>==\<close> of two method dictionaries of the same length.\<close>

fun methods_eq ::
  "(string \<times> lox_function) list \<Rightarrow> (string \<times> lox_function) list \<Rightarrow> exn + bool" where
  "methods_eq [] ns = Inr True"
| "methods_eq ((k, f) # ms) ns =
     (case map_of ns k of
        None \<Rightarrow> Inr False
      | Some g \<Rightarrow> (case function_eq f g of Inr True \<Rightarrow> methods_eq ms ns | r \<Rightarrow> r))"

fun class_eq :: "lox_class \<Rightarrow> lox_class \<Rightarrow> exn + bool" where
  "class_eq (LoxClass i n ms b) (LoxClass j m ns c) =
     (if i = j then Inr True
      else if n \<noteq> m then Inr False
      else if length ms \<noteq> length ns then Inr False
      else (case methods_eq ms ns of
              Inr True \<Rightarrow>
                (case (b, c) of
                   (None, None) \<Rightarrow> Inr True
                 | (Some b', Some c') \<Rightarrow> class_eq b' c'
                 | _ \<Rightarrow> Inr False)
            | r \<Rightarrow> r))"

text \<open>
  \<open>==\<close> of two field dictionaries of the same length, with \<open>value_eq\<close> for the \<open>==\<close>
  of two values: every key of the first is a key of the second, with a value that is
  the same object or is equal. Two NaNs are equal when they are the same object, which
  the model does not record.
\<close>

fun fields_eq ::
  "(val \<Rightarrow> val \<Rightarrow> (exn + bool) option) \<Rightarrow> (string \<times> val) list \<Rightarrow> (string \<times> val) list
     \<Rightarrow> (exn + bool) option" where
  "fields_eq value_eq [] gs = Some (Inr True)"
| "fields_eq value_eq ((k, v) # fs) gs =
     (case map_of gs k of
        None \<Rightarrow> Some (Inr False)
      | Some w \<Rightarrow>
          if v = VNumber NaN \<and> w = VNumber NaN then Some (Inl (Unmodelled ''NaN is NaN''))
          else (case value_eq v w of
                  Some (Inr True) \<Rightarrow> fields_eq value_eq fs gs
                | r \<Rightarrow> r))"

text \<open>
  Python's \<open>a == b\<close> on runtime values. The comparison of two instances recurses through
  their field dictionaries, which may be cyclic: the first argument bounds the depth,
  and \<open>None\<close> is a comparison that did not finish within it. Inside a dictionary a
  \<open>bool\<close> equals the float of the same value (\<open>True == 1.0\<close>).
\<close>

primrec py_eq :: "nat \<Rightarrow> state \<Rightarrow> val \<Rightarrow> val \<Rightarrow> (exn + bool) option" where
  "py_eq 0 s a b = None"
| "py_eq (Suc n) s a b =
     (case a of
        VNil \<Rightarrow> Some (Inr (b = VNil))
      | VBool x \<Rightarrow>
          (case b of
             VBool y \<Rightarrow> Some (Inr (x = y))
           | VNumber y \<Rightarrow> Some (Inr (float_eq (float_of_bool x) y))
           | _ \<Rightarrow> Some (Inr False))
      | VNumber x \<Rightarrow>
          (case b of
             VNumber y \<Rightarrow> Some (Inr (float_eq x y))
           | VBool y \<Rightarrow> Some (Inr (float_eq x (float_of_bool y)))
           | _ \<Rightarrow> Some (Inr False))
      | VStr x \<Rightarrow> (case b of VStr y \<Rightarrow> Some (Inr (x = y)) | _ \<Rightarrow> Some (Inr False))
      | VFunction f \<Rightarrow>
          (case b of VFunction g \<Rightarrow> Some (function_eq f g) | _ \<Rightarrow> Some (Inr False))
      | VInitFunction f i \<Rightarrow>
          (case b of VInitFunction g j \<Rightarrow> Some (function_eq f g) | _ \<Rightarrow> Some (Inr False))
      | VClass c \<Rightarrow> (case b of VClass d \<Rightarrow> Some (class_eq c d) | _ \<Rightarrow> Some (Inr False))
      | VInstance i \<Rightarrow>
          (case b of
             VInstance j \<Rightarrow>
               if i = j then Some (Inr True)
               else (case instance_at s i of
                       None \<Rightarrow> Some (Inl (Unmodelled ''no such instance''))
                     | Some obj \<Rightarrow>
                         (case instance_at s j of
                            None \<Rightarrow> Some (Inl (Unmodelled ''no such instance''))
                          | Some obj' \<Rightarrow>
                              (case class_eq (klass obj) (klass obj') of
                                 Inr True \<Rightarrow>
                                   if length (inst_fields obj) \<noteq> length (inst_fields obj')
                                   then Some (Inr False)
                                   else fields_eq (py_eq n s) (inst_fields obj) (inst_fields obj')
                               | r \<Rightarrow> Some r)))
           | _ \<Rightarrow> Some (Inr False)))"

text \<open>
  The operator \<open>==\<close> of Lox, \<open>eq\<close> in \<open>runtime.py\<close>: values of different Python types are
  never equal; values of one type are compared by Python's \<open>==\<close>.
\<close>

definition lox_eq :: "nat \<Rightarrow> state \<Rightarrow> val \<Rightarrow> val \<Rightarrow> (exn + bool) option" where
  "lox_eq n s a b = (if type_of a \<noteq> type_of b then Some (Inr False) else py_eq n s a b)"

definition lox_ne :: "nat \<Rightarrow> state \<Rightarrow> val \<Rightarrow> val \<Rightarrow> (exn + bool) option" where
  "lox_ne n s a b = map_option (map_sum id Not) (lox_eq n s a b)"

section \<open>The environment\<close>

text \<open>
  Modelled from the spec: the class \<open>Ctx\<close> of \<open>lox/ctx.py\<close>, which is not among the
  sources. The spec (section 3, Environment) gives a chain of frames, each a mapping from
  names to values, with \<open>lookup\<close> (\<open>ctx[name]\<close>, which walks from the innermost frame
  outwards and fails on an unbound name; \<open>ast.py\<close> catches that failure as a
  \<open>KeyError\<close>), \<open>define\<close> (\<open>var_def\<close>, in the current frame), \<open>assign\<close> (updates the
  first frame that defines the name and fails if none does) and \<open>push\<close> (a new child
  frame with the given bindings, the parent unchanged).
\<close>

definition frame_at :: "state \<Rightarrow> nat \<Rightarrow> (string \<times> val) list" where
  "frame_at s a = (if a < length (frames s) then frames s ! a else [])"

fun ctx_lookup :: "state \<Rightarrow> ctx \<Rightarrow> string \<Rightarrow> val option" where
  "ctx_lookup s [] name = None"
| "ctx_lookup s (a # c) name =
     (case map_of (frame_at s a) name of Some v \<Rightarrow> Some v | None \<Rightarrow> ctx_lookup s c name)"

definition var_def :: "state \<Rightarrow> ctx \<Rightarrow> string \<Rightarrow> val \<Rightarrow> state" where
  "var_def s c name v =
     (case c of
        [] \<Rightarrow> s
      | a # _ \<Rightarrow> s\<lparr>frames := (frames s)[a := AList.update name v (frame_at s a)]\<rparr>)"

fun assign :: "state \<Rightarrow> ctx \<Rightarrow> string \<Rightarrow> val \<Rightarrow> state option" where
  "assign s [] name v = None"
| "assign s (a # c) name v =
     (if map_of (frame_at s a) name \<noteq> None
      then Some (s\<lparr>frames := (frames s)[a := AList.update name v (frame_at s a)]\<rparr>)
      else assign s c name v)"

definition push :: "state \<Rightarrow> ctx \<Rightarrow> (string \<times> val) list \<Rightarrow> ctx \<times> state" where
  "push s c bindings = (length (frames s) # c, s\<lparr>frames := frames s @ [bindings]\<rparr>)"

text \<open>A Python dictionary built from pairs: a later pair replaces an earlier one.\<close>

definition dict_of :: "(string \<times> val) list \<Rightarrow> (string \<times> val) list" where
  "dict_of ps = foldl (\<lambda>d (k, v). AList.update k v d) [] ps"

section \<open>Classes, instances and functions\<close>

definition quote :: string where
  "quote = [CHR 0x27]"

text \<open>
  The messages of the source are Portuguese; a character beyond ASCII is written by its
  code point (\<open>0xE1\<close> a-acute, \<open>0xE2\<close> a-circumflex, \<open>0xE3\<close> a-tilde, \<open>0xE7\<close> c-cedilla,
  \<open>0xE9\<close> e-acute).
\<close>

definition nao :: string where
  "nao = ''n'' @ [CHR 0xE3] @ ''o''"

fun get_method :: "lox_class \<Rightarrow> string \<Rightarrow> exn + lox_function" where
  "get_method (LoxClass i n ms b) name =
     (case map_of ms name of
        Some f \<Rightarrow> Inr f
      | None \<Rightarrow>
          (case b of
             Some c \<Rightarrow> get_method c name
           | None \<Rightarrow>
               Inl (LoxError (''M'' @ [CHR 0xE9] @ ''todo '' @ quote @ name @ quote @ '' '' @ nao @
                              '' encontrado na classe '' @ quote @ n @ quote))))"

text \<open>
  \<open>LoxFunction.bind\<close>: a new function object with the same name, parameters and body,
  whose context is the captured one extended with the frame \<open>{this: obj}\<close>.
\<close>

definition new_function ::
  "state \<Rightarrow> string \<Rightarrow> string list \<Rightarrow> stmt list \<Rightarrow> ctx \<Rightarrow> lox_function \<times> state" where
  "new_function s name params body c =
     (LoxFunction (next_id s) name params body c, s\<lparr>next_id := Suc (next_id s)\<rparr>)"

definition bind :: "state \<Rightarrow> lox_function \<Rightarrow> val \<Rightarrow> lox_function \<times> state" where
  "bind s f obj =
     (let (c, s1) = push s (fn_ctx f) [(''this'', obj)]
      in new_function s1 (fn_name f) (fn_params f) (fn_body f) c)"

text \<open>\<open>LoxInstance.set_field\<close>.\<close>

definition set_field :: "state \<Rightarrow> nat \<Rightarrow> string \<Rightarrow> val \<Rightarrow> state" where
  "set_field s i name v =
     (case instance_at s i of
        None \<Rightarrow> s
      | Some obj \<Rightarrow>
          s\<lparr>instances :=
              (instances s)[i := LoxInstance (klass obj) (AList.update name v (inst_fields obj))]\<rparr>)"

text \<open>
  \<open>LoxInstance.__getattr__\<close>: the field, else the method of the class chain bound to
  the instance (as a \<open>LoxInitFunction\<close> for \<open>init\<close>), else the \<open>LoxError\<close>.
\<close>

definition campo_nao_existe :: "string \<Rightarrow> string" where
  "campo_nao_existe name = ''Campo '' @ quote @ name @ quote @ '' '' @ nao @ '' existe''"

definition instance_getattr :: "state \<Rightarrow> nat \<Rightarrow> string \<Rightarrow> (exn + val) \<times> state" where
  "instance_getattr s i name =
     (case instance_at s i of
        None \<Rightarrow> (Inl (Unmodelled ''no such instance''), s)
      | Some obj \<Rightarrow>
          (case map_of (inst_fields obj) name of
             Some v \<Rightarrow> (Inr v, s)
           | None \<Rightarrow>
               (case get_method (klass obj) name of
                  Inl e \<Rightarrow> (Inl (LoxError (campo_nao_existe name)), s)
                | Inr m \<Rightarrow>
                    (let (bound_method, s1) = bind s m (VInstance i)
                     in if name = ''init''
                        then (let (init_fn, s2) =
                                    new_function s1 (fn_name bound_method) (fn_params bound_method)
                                      (fn_body bound_method) (fn_ctx bound_method)
                              in (Inr (VInitFunction init_fn i), s2))
                        else (Inr (VFunction bound_method), s1)))))"

section \<open>The Python host\<close>

text \<open>
  What the interpreter takes from Python and the sources do not fix: the arithmetic of
  IEEE-754 doubles, and the names of the attributes that Python's built-in types define
  (\<open>object\<close>, \<open>NoneType\<close>, \<open>bool\<close>, \<open>float\<close>, \<open>str\<close>), which change with the version
  of Python. Every name that \<open>object\<close> or the dataclass machinery defines has the form
  \<open>__x__\<close>.
\<close>

record host =
  float_add :: "pyfloat \<Rightarrow> pyfloat \<Rightarrow> pyfloat"
  float_sub :: "pyfloat \<Rightarrow> pyfloat \<Rightarrow> pyfloat"
  float_mul :: "pyfloat \<Rightarrow> pyfloat \<Rightarrow> pyfloat"
  float_div :: "pyfloat \<Rightarrow> pyfloat \<Rightarrow> pyfloat"
  float_lt :: "pyfloat \<Rightarrow> pyfloat \<Rightarrow> bool"
  float_le :: "pyfloat \<Rightarrow> pyfloat \<Rightarrow> bool"
  builtin_attr :: "py_type \<Rightarrow> string \<Rightarrow> bool"

definition is_dunder :: "string \<Rightarrow> bool" where
  "is_dunder name =
     (4 < length name \<and> take 2 name = ''__'' \<and> drop (length name - 2) name = ''__'')"

text \<open>\<open>-value\<close> on a float changes the sign.\<close>

fun float_neg :: "pyfloat \<Rightarrow> pyfloat" where
  "float_neg (Finite neg ds p) = Finite (\<not> neg) ds p"
| "float_neg (Infinity neg) = Infinity (\<not> neg)"
| "float_neg NaN = NaN"

section \<open>Operators\<close>

definition numbers :: "val \<Rightarrow> val \<Rightarrow> (pyfloat \<times> pyfloat) option" where
  "numbers a b =
     (case a of
        VNumber x \<Rightarrow> (case b of VNumber y \<Rightarrow> Some (x, y) | _ \<Rightarrow> None)
      | _ \<Rightarrow> None)"

definition must_be_numbers :: exn where
  "must_be_numbers = LoxError ''Operands must be numbers.''"

definition neg :: "val \<Rightarrow> exn + val" where
  "neg v =
     (case v of
        VNumber x \<Rightarrow> Inr (VNumber (float_neg x))
      | _ \<Rightarrow> Inl (LoxError ''Operand must be a number.''))"

definition add :: "host \<Rightarrow> val \<Rightarrow> val \<Rightarrow> exn + val" where
  "add H a b =
     (case numbers a b of
        Some (x, y) \<Rightarrow> Inr (VNumber (float_add H x y))
      | None \<Rightarrow>
          (case a of
             VStr t \<Rightarrow>
               (case b of
                  VStr u \<Rightarrow> Inr (VStr (t @ u))
                | _ \<Rightarrow> Inl (LoxError ''Operands must be two numbers or two strings.''))
           | _ \<Rightarrow> Inl (LoxError ''Operands must be two numbers or two strings.'')))"

definition sub :: "host \<Rightarrow> val \<Rightarrow> val \<Rightarrow> exn + val" where
  "sub H a b =
     (case numbers a b of
        None \<Rightarrow> Inl must_be_numbers
      | Some (x, y) \<Rightarrow> Inr (VNumber (float_sub H x y)))"

definition mul :: "host \<Rightarrow> val \<Rightarrow> val \<Rightarrow> exn + val" where
  "mul H a b =
     (case numbers a b of
        None \<Rightarrow> Inl must_be_numbers
      | Some (x, y) \<Rightarrow> Inr (VNumber (float_mul H x y)))"

definition truediv :: "host \<Rightarrow> val \<Rightarrow> val \<Rightarrow> exn + val" where
  "truediv H a b =
     (case numbers a b of
        None \<Rightarrow> Inl must_be_numbers
      | Some (x, y) \<Rightarrow>
          if float_is_zero y then Inl (LoxError ''Division by zero.'')
          else Inr (VNumber (float_div H x y)))"

definition lt :: "host \<Rightarrow> val \<Rightarrow> val \<Rightarrow> exn + val" where
  "lt H a b =
     (case numbers a b of
        None \<Rightarrow> Inl must_be_numbers
      | Some (x, y) \<Rightarrow> Inr (VBool (float_lt H x y)))"

definition le :: "host \<Rightarrow> val \<Rightarrow> val \<Rightarrow> exn + val" where
  "le H a b =
     (case numbers a b of
        None \<Rightarrow> Inl must_be_numbers
      | Some (x, y) \<Rightarrow> Inr (VBool (float_le H x y)))"

definition gt :: "host \<Rightarrow> val \<Rightarrow> val \<Rightarrow> exn + val" where
  "gt H a b =
     (case numbers a b of
        None \<Rightarrow> Inl must_be_numbers
      | Some (x, y) \<Rightarrow> Inr (VBool (float_lt H y x)))"

definition ge :: "host \<Rightarrow> val \<Rightarrow> val \<Rightarrow> exn + val" where
  "ge H a b =
     (case numbers a b of
        None \<Rightarrow> Inl must_be_numbers
      | Some (x, y) \<Rightarrow> Inr (VBool (float_le H y x)))"

text \<open>The call \<open>self.op(left_value, right_value)\<close> of \<open>BinOp.eval\<close>.\<close>

definition apply_binop ::
  "host \<Rightarrow> nat \<Rightarrow> state \<Rightarrow> binop \<Rightarrow> val \<Rightarrow> val \<Rightarrow> (exn + val) option" where
  "apply_binop H n s op a b =
     (case op of
        OpAdd \<Rightarrow> Some (add H a b)
      | OpSub \<Rightarrow> Some (sub H a b)
      | OpMul \<Rightarrow> Some (mul H a b)
      | OpTruediv \<Rightarrow> Some (truediv H a b)
      | OpEq \<Rightarrow> map_option (map_sum id VBool) (lox_eq n s a b)
      | OpNe \<Rightarrow> map_option (map_sum id VBool) (lox_ne n s a b)
      | OpLt \<Rightarrow> Some (lt H a b)
      | OpLe \<Rightarrow> Some (le H a b)
      | OpGt \<Rightarrow> Some (gt H a b)
      | OpGe \<Rightarrow> Some (ge H a b))"

definition apply_unop :: "unop \<Rightarrow> val \<Rightarrow> exn + val" where
  "apply_unop op v = (case op of OpNeg \<Rightarrow> neg v | OpNot \<Rightarrow> Inr (VBool (not_lox v)))"

section \<open>Calls\<close>

text \<open>
  The outcome of an evaluation step: \<open>None\<close> when the bound on the depth of the
  evaluation is reached, else the state it leaves and either the exception it raises or
  the value it returns.
\<close>

type_synonym 'a result = "((exn + 'a) \<times> state) option"

definition bind_result :: "'a result \<Rightarrow> ('a \<Rightarrow> state \<Rightarrow> 'b result) \<Rightarrow> 'b result" where
  "bind_result m f =
     (case m of
        None \<Rightarrow> None
      | Some (Inl e, s) \<Rightarrow> Some (Inl e, s)
      | Some (Inr v, s) \<Rightarrow> f v s)"

definition arity_message :: "string \<Rightarrow> nat \<Rightarrow> nat \<Rightarrow> string" where
  "arity_message name expected given =
     quote @ name @ quote @ '' esperava '' @ str_nat expected @ '' argumentos, mas recebeu '' @
     str_nat given @ ''.''"

text \<open>
  \<open>LoxFunction.call\<close>, with \<open>Block.eval\<close> as the parameter \<open>block_eval\<close>. No object has
  an attribute \<open>bind_instance\<close> or \<open>bind_superclass\<close> (no code sets one, and \<open>Setattr\<close>
  rejects functions), and the \<open>Ctx\<close> of the spec has no attribute \<open>superclass\<close>, so
  \<open>supercls\<close> is \<open>None\<close> and \<open>this\<close> comes from the heuristic on the first parameter only.
\<close>

definition call_function ::
  "(ctx \<Rightarrow> stmt list \<Rightarrow> state \<Rightarrow> unit result) \<Rightarrow> lox_function \<Rightarrow> val list \<Rightarrow> state
     \<Rightarrow> val result" where
  "call_function block_eval f args s =
     (if length args \<noteq> length (fn_params f)
      then Some (Inl (TypeError (arity_message (fn_name f) (length (fn_params f)) (length args))), s)
      else
        (let local_env = dict_of (zip (fn_params f) args);
             this = (if fn_params f \<noteq> [] \<and> hd (fn_params f) = ''this'' \<and> args \<noteq> []
                     then hd args else VNil);
             env = (if this \<noteq> VNil then AList.update ''this'' this local_env else local_env);
             (call_ctx, s1) = push s (fn_ctx f) env
         in (case block_eval call_ctx (fn_body f) s1 of
               None \<Rightarrow> None
             | Some (Inl (LoxReturn v), s2) \<Rightarrow> Some (Inr v, s2)
             | Some (Inl e, s2) \<Rightarrow> Some (Inl e, s2)
             | Some (Inr u, s2) \<Rightarrow> Some (Inr VNil, s2))))"

text \<open>
  \<open>LoxClass.__call__\<close>: a new instance; the \<open>try\<close> block looks \<open>init\<close> up, binds it and
  calls it, and the handler of \<open>LoxError\<close> covers the whole block.
\<close>

definition new_instance :: "state \<Rightarrow> lox_class \<Rightarrow> nat \<times> state" where
  "new_instance s k = (length (instances s), s\<lparr>instances := instances s @ [LoxInstance k []]\<rparr>)"

definition class_call_handler :: "nat \<Rightarrow> val list \<Rightarrow> state \<Rightarrow> val result" where
  "class_call_handler i args s =
     (if 0 < length args
      then Some (Inl (TypeError (''Esperava 0 argumentos mas recebeu '' @ str_nat (length args))), s)
      else Some (Inr (VInstance i), s))"

definition class_call ::
  "(ctx \<Rightarrow> stmt list \<Rightarrow> state \<Rightarrow> unit result) \<Rightarrow> lox_class \<Rightarrow> val list \<Rightarrow> state
     \<Rightarrow> val result" where
  "class_call block_eval k args s =
     (let (i, s1) = new_instance s k
      in (case get_method k ''init'' of
            Inl e \<Rightarrow> class_call_handler i args s1
          | Inr initializer \<Rightarrow>
              (let (bound_initializer, s2) = bind s1 initializer (VInstance i)
               in (case call_function block_eval bound_initializer args s2 of
                     None \<Rightarrow> None
                   | Some (Inl (LoxError m), s3) \<Rightarrow> class_call_handler i args s3
                   | Some (Inl e, s3) \<Rightarrow> Some (Inl e, s3)
                   | Some (Inr v, s3) \<Rightarrow> Some (Inr (VInstance i), s3)))))"

text \<open>Python's \<open>callable(func)\<close>: the classes that define \<open>__call__\<close>.\<close>

fun callable :: "val \<Rightarrow> bool" where
  "callable (VFunction f) = True"
| "callable (VInitFunction f i) = True"
| "callable (VClass k) = True"
| "callable _ = False"

text \<open>
  \<open>func(*args)\<close>: \<open>LoxFunction.__call__\<close>, \<open>LoxInitFunction.__call__\<close> (which runs the
  function and returns the instance) or \<open>LoxClass.__call__\<close>.
\<close>

definition call_value ::
  "(ctx \<Rightarrow> stmt list \<Rightarrow> state \<Rightarrow> unit result) \<Rightarrow> val \<Rightarrow> val list \<Rightarrow> state \<Rightarrow> val result" where
  "call_value block_eval func args s =
     (case func of
        VFunction f \<Rightarrow> call_function block_eval f args s
      | VInitFunction f i \<Rightarrow>
          bind_result (call_function block_eval f args s) (\<lambda>v s1. Some (Inr (VInstance i), s1))
      | VClass k \<Rightarrow> class_call block_eval k args s
      | _ \<Rightarrow> Some (Inl (Unmodelled ''not callable''), s))"

section \<open>Attributes\<close>

definition nao_possui_atributo :: "state \<Rightarrow> val \<Rightarrow> string \<Rightarrow> string" where
  "nao_possui_atributo s v name =
     ''O objeto '' @ py_str s v @ '' '' @ nao @ '' possui o atributo '' @ quote @ name @ quote"

text \<open>
  \<open>getattr(obj_value, name)\<close> on a \<open>LoxFunction\<close>: Python finds the attributes of the
  object first, which are the fields of the dataclass (\<open>name\<close>, a string; \<open>params\<close>,
  \<open>body\<close> and \<open>ctx\<close>, which are no Lox values), its methods \<open>bind\<close> and \<open>call\<close>, and
  what \<open>object\<close> defines.
\<close>

definition function_getattr ::
  "host \<Rightarrow> state \<Rightarrow> val \<Rightarrow> lox_function \<Rightarrow> string \<Rightarrow> (exn + val) \<times> state" where
  "function_getattr H s v f name =
     (if name = ''name'' then (Inr (VStr (fn_name f)), s)
      else if name \<in> set [''params'', ''body'', ''ctx'', ''bind'', ''call'']
              \<or> (is_dunder name \<and> builtin_attr H (type_of v) name)
      then (Inl (Unmodelled name), s)
      else (Inl (AttributeError (nao_possui_atributo s v name)), s))"

text \<open>
  The body of \<open>Getattr.eval\<close> after the object is evaluated. On a \<open>LoxInstance\<close>, Python
  consults \<open>__getattr__\<close> only for a name that is no attribute of the object: \<open>klass\<close>
  and \<open>fields\<close> (the fields of the dataclass), \<open>get_field\<close> and \<open>set_field\<close> (its
  methods) and the names of \<open>object\<close> come first.
\<close>

definition getattr_value :: "host \<Rightarrow> state \<Rightarrow> val \<Rightarrow> string \<Rightarrow> (exn + val) \<times> state" where
  "getattr_value H s v name =
     (case v of
        VClass k \<Rightarrow>
          (case get_method k name of
             Inr f \<Rightarrow> (Inr (VFunction f), s)
           | Inl e \<Rightarrow> (Inl (AttributeError (nao_possui_atributo s v name)), s))
      | VInstance i \<Rightarrow>
          if name = ''klass''
          then (case instance_at s i of
                  Some obj \<Rightarrow> (Inr (VClass (klass obj)), s)
                | None \<Rightarrow> (Inl (Unmodelled ''no such instance''), s))
          else if name \<in> set [''fields'', ''get_field'', ''set_field'']
                  \<or> (is_dunder name \<and> builtin_attr H PyLoxInstance name)
          then (Inl (Unmodelled name), s)
          else instance_getattr s i name
      | VFunction f \<Rightarrow> function_getattr H s v f name
      | VInitFunction f i \<Rightarrow>
          if name = ''instance'' then (Inr (VInstance i), s) else function_getattr H s v f name
      | _ \<Rightarrow>
          if builtin_attr H (type_of v) name then (Inl (Unmodelled name), s)
          else (Inl (AttributeError (nao_possui_atributo s v name)), s))"

definition apenas_instancias :: string where
  "apenas_instancias = ''Apenas inst'' @ [CHR 0xE2] @ ''ncias podem ter campos.''"

text \<open>
  Python's \<open>setattr(obj, name, val)\<close> on \<open>None\<close>, a \<open>bool\<close>, a \<open>float\<close> or a \<open>str\<close>,
  where \<open>val\<close> is a Lox value. These objects have no dictionary of attributes, and the
  only attribute of theirs with a setter is \<open>__class__\<close>, which \<open>object\<close> defines: its
  setter raises a \<open>TypeError\<close>, since no Lox value is a Python class. Every other name
  raises an \<open>AttributeError\<close>.
\<close>

definition py_setattr :: "string \<Rightarrow> exn" where
  "py_setattr name = (if name = ''__class__'' then PyTypeError else PyAttributeError)"

text \<open>
  The body of \<open>Setattr.eval\<close> after the object and the value are evaluated. On a value
  that is no class, function or instance the source calls Python's \<open>setattr\<close>.
\<close>

definition setattr_value :: "state \<Rightarrow> val \<Rightarrow> string \<Rightarrow> val \<Rightarrow> val result" where
  "setattr_value s obj_val name v =
     (case obj_val of
        VClass k \<Rightarrow> Some (Inl (LoxError apenas_instancias), s)
      | VFunction f \<Rightarrow> Some (Inl (LoxError apenas_instancias), s)
      | VInitFunction f i \<Rightarrow> Some (Inl (LoxError apenas_instancias), s)
      | VInstance i \<Rightarrow> Some (Inr v, set_field s i name v)
      | _ \<Rightarrow> Some (Inl (py_setattr name), s))"

section \<open>The evaluator\<close>

definition variavel_nao_existe :: "string \<Rightarrow> string" where
  "variavel_nao_existe name =
     ''vari'' @ [CHR 0xE1] @ ''vel '' @ name @ '' '' @ nao @ '' existe!''"

definition nao_e_funcao :: "state \<Rightarrow> val \<Rightarrow> string" where
  "nao_e_funcao s func =
     quote @ py_str s func @ quote @ '' '' @ nao @ '' '' @ [CHR 0xE9] @ '' uma fun'' @
     [CHR 0xE7, CHR 0xE3] @ ''o!''"

text \<open>The loop of \<open>Class.eval\<close> over the methods: a later method replaces an earlier
  one of the same name.\<close>

fun make_methods ::
  "state \<Rightarrow> ctx \<Rightarrow> (string \<times> string list \<times> stmt list) list \<Rightarrow> (string \<times> lox_function) list
     \<Rightarrow> (string \<times> lox_function) list \<times> state" where
  "make_methods s method_ctx [] methods = (methods, s)"
| "make_methods s method_ctx ((method_name, method_args, method_body) # ms) methods =
     (let (method_impl, s1) = new_function s method_name method_args method_body method_ctx
      in make_methods s1 method_ctx ms (AList.update method_name method_impl methods))"

text \<open>\<open>Class.eval\<close> once the superclass is known.\<close>

definition make_class ::
  "state \<Rightarrow> ctx \<Rightarrow> string \<Rightarrow> (string \<times> string list \<times> stmt list) list \<Rightarrow> lox_class option
     \<Rightarrow> state" where
  "make_class s c name ms superclass =
     (let (method_ctx, s1) =
            (case superclass of
               None \<Rightarrow> (c, s)
             | Some k \<Rightarrow> push s c [(''super'', VClass k)]);
          (methods, s2) = make_methods s1 method_ctx ms [];
          lox_class = LoxClass (next_id s2) name methods superclass
      in var_def (s2\<lparr>next_id := Suc (next_id s2)\<rparr>) c name (VClass lox_class))"

text \<open>\<open>Class.eval\<close>: the base, a \<open>Var\<close>, is evaluated first and must be a class.\<close>

definition class_eval ::
  "state \<Rightarrow> ctx \<Rightarrow> string \<Rightarrow> (string \<times> string list \<times> stmt list) list \<Rightarrow> string option
     \<Rightarrow> (exn + unit) \<times> state" where
  "class_eval s c name methods base =
     (case base of
        None \<Rightarrow> (Inr (), make_class s c name methods None)
      | Some base_name \<Rightarrow>
          (case ctx_lookup s c base_name of
             None \<Rightarrow> (Inl (NameError (variavel_nao_existe base_name)), s)
           | Some base_value \<Rightarrow>
               (case base_value of
                  VClass superclass \<Rightarrow> (Inr (), make_class s c name methods (Some superclass))
                | _ \<Rightarrow>
                    (Inl (LoxError (quote @ base_name @ quote @ '' '' @ nao @ '' '' @
                                    [CHR 0xE9] @ '' uma classe'')), s))))"

text \<open>
  \<open>Super.eval\<close>: \<open>this\<close> and \<open>super\<close> are looked up in the context, the method is
  resolved from the superclass and bound to the instance. A \<open>LoxError\<close> of
  \<open>get_method\<close> is not caught. Where \<open>super\<close> is bound to a value that is no class, the
  call of \<open>get_method\<close> is an attribute access of Python on that value.
\<close>

definition super_eval :: "state \<Rightarrow> ctx \<Rightarrow> string \<Rightarrow> (exn + val) \<times> state" where
  "super_eval s c name =
     (case ctx_lookup s c ''this'' of
        None \<Rightarrow> (Inl (NameError (variavel_nao_existe ''this'')), s)
      | Some instance \<Rightarrow>
          (case ctx_lookup s c ''super'' of
             None \<Rightarrow> (Inl (NameError (variavel_nao_existe ''super'')), s)
           | Some super_value \<Rightarrow>
               (case super_value of
                  VClass superclass \<Rightarrow>
                    (case get_method superclass name of
                       Inl e \<Rightarrow> (Inl e, s)
                     | Inr method \<Rightarrow>
                         (let (bound_method, s1) = bind s method instance
                          in (Inr (VFunction bound_method), s1)))
                | _ \<Rightarrow> (Inl (Unmodelled ''get_method''), s))))"

text \<open>
  The methods \<open>eval\<close> of the nodes call each other and may not return (a \<open>while\<close> loop,
  a recursion of the Lox program), so the evaluation is bounded by a depth: the
  evaluators of depth \<open>n + 1\<close> are the bodies below, in which every call of an \<open>eval\<close>
  goes to the evaluators \<open>E\<close> of depth \<open>n\<close>; at depth 0 there is no result.
\<close>

record evaluator =
  ev_expr :: "ctx \<Rightarrow> expr \<Rightarrow> state \<Rightarrow> val result"
  ev_args :: "ctx \<Rightarrow> expr list \<Rightarrow> state \<Rightarrow> val list result"
  ev_stmt :: "ctx \<Rightarrow> stmt \<Rightarrow> state \<Rightarrow> unit result"
  ev_block :: "ctx \<Rightarrow> stmt list \<Rightarrow> state \<Rightarrow> unit result"
  ev_stmts :: "ctx \<Rightarrow> stmt list \<Rightarrow> state \<Rightarrow> unit result"

text \<open>The method \<open>eval\<close> of each expression node.\<close>

definition expr_eval :: "nat \<Rightarrow> host \<Rightarrow> evaluator \<Rightarrow> ctx \<Rightarrow> expr \<Rightarrow> state \<Rightarrow> val result" where
  "expr_eval n H E c e s =
    (case e of
       BinOp left right op \<Rightarrow>
         bind_result (ev_expr E c left s) (\<lambda>left_value s1.
         bind_result (ev_expr E c right s1) (\<lambda>right_value s2.
           (case apply_binop H n s2 op left_value right_value of
              None \<Rightarrow> None
            | Some r \<Rightarrow> Some (r, s2))))
     | Var name \<Rightarrow>
         (case ctx_lookup s c name of
            Some v \<Rightarrow> Some (Inr v, s)
          | None \<Rightarrow> Some (Inl (NameError (variavel_nao_existe name)), s))
     | Literal l \<Rightarrow> Some (Inr (literal_value l), s)
     | And left right \<Rightarrow>
         bind_result (ev_expr E c left s) (\<lambda>left_val s1.
           if left_val = VBool False \<or> left_val = VNil then Some (Inr left_val, s1)
           else ev_expr E c right s1)
     | Or left right \<Rightarrow>
         bind_result (ev_expr E c left s) (\<lambda>left_val s1.
           if left_val \<noteq> VBool False \<and> left_val \<noteq> VNil then
             (if (case left_val of VNumber x \<Rightarrow> float_is_zero x | _ \<Rightarrow> False)
              then Some (Inr left_val, s1)
              else if left_val = VStr [] then Some (Inr left_val, s1)
              else Some (Inr left_val, s1))
           else ev_expr E c right s1)
     | UnaryOp operand op \<Rightarrow>
         bind_result (ev_expr E c operand s) (\<lambda>v s1. Some (apply_unop op v, s1))
     | Call callee params \<Rightarrow>
         bind_result (ev_expr E c callee s) (\<lambda>func s1.
         bind_result (ev_args E c params s1) (\<lambda>args s2.
           if callable func then call_value (ev_block E) func args s2
           else Some (Inl (TypeError (nao_e_funcao s2 func)), s2)))
     | This \<Rightarrow>
         (case ctx_lookup s c ''this'' of
            Some v \<Rightarrow> Some (Inr v, s)
          | None \<Rightarrow> Some (Inl (NameError (variavel_nao_existe ''this'')), s))
     | Super name \<Rightarrow> Some (super_eval s c name)
     | Assign name value \<Rightarrow>
         bind_result (ev_expr E c value s) (\<lambda>result s1.
           (case assign s1 c name result of
              None \<Rightarrow> Some (Inl (KeyError name), s1)
            | Some s2 \<Rightarrow> Some (Inr result, s2)))
     | Getattr obj name \<Rightarrow>
         bind_result (ev_expr E c obj s) (\<lambda>obj_value s1.
           Some (getattr_value H s1 obj_value name))
     | Setattr obj name value \<Rightarrow>
         bind_result (ev_expr E c obj s) (\<lambda>obj_val s1.
         bind_result (ev_expr E c value s1) (\<lambda>v s2. setattr_value s2 obj_val name v)))"

text \<open>The list comprehension \<open>[param.eval(ctx) for param in self.params]\<close>.\<close>

definition args_eval :: "evaluator \<Rightarrow> ctx \<Rightarrow> expr list \<Rightarrow> state \<Rightarrow> val list result" where
  "args_eval E c es s =
    (case es of
       [] \<Rightarrow> Some (Inr [], s)
     | param # params \<Rightarrow>
         bind_result (ev_expr E c param s) (\<lambda>v s1.
         bind_result (ev_args E c params s1) (\<lambda>vs s2. Some (Inr (v # vs), s2))))"

text \<open>The method \<open>eval\<close> of each statement node.\<close>

definition stmt_eval :: "evaluator \<Rightarrow> ctx \<Rightarrow> stmt \<Rightarrow> state \<Rightarrow> unit result" where
  "stmt_eval E c st s =
    (case st of
       ExprStmt e \<Rightarrow> bind_result (ev_expr E c e s) (\<lambda>v s1. Some (Inr (), s1))
     | Print e \<Rightarrow> bind_result (ev_expr E c e s) (\<lambda>v s1. Some (Inr (), lox_print s1 v))
     | Return value \<Rightarrow>
         (case value of
            None \<Rightarrow> Some (Inl (LoxReturn VNil), s)
          | Some e \<Rightarrow>
              bind_result (ev_expr E c e s) (\<lambda>return_value s1.
                Some (Inl (LoxReturn return_value), s1)))
     | VarDef name initializer \<Rightarrow>
         bind_result (ev_expr E c initializer s) (\<lambda>v s1. Some (Inr (), var_def s1 c name v))
     | If condition then_branch else_branch \<Rightarrow>
         bind_result (ev_expr E c condition s) (\<lambda>condition_val s1.
           if condition_val \<noteq> VBool False \<and> condition_val \<noteq> VNil
           then ev_stmt E c then_branch s1
           else ev_stmt E c else_branch s1)
     | While condition body \<Rightarrow>
         bind_result (ev_expr E c condition s) (\<lambda>condition_val s1.
           if condition_val = VBool False \<or> condition_val = VNil then Some (Inr (), s1)
           else bind_result (ev_stmt E c body s1) (\<lambda>u s2.
                  ev_stmt E c (While condition body) s2))
     | Block stmts \<Rightarrow> ev_block E c stmts s
     | Function name params body \<Rightarrow>
         (let (function, s1) = new_function s name params body c
          in Some (Inr (), var_def s1 c name (VFunction function)))
     | Class name methods base \<Rightarrow> Some (class_eval s c name methods base))"

text \<open>\<open>Block.eval\<close>: a new empty frame, then the statements in order.\<close>

definition block_eval :: "evaluator \<Rightarrow> ctx \<Rightarrow> stmt list \<Rightarrow> state \<Rightarrow> unit result" where
  "block_eval E c stmts s = (let (new_ctx, s1) = push s c [] in ev_stmts E new_ctx stmts s1)"

text \<open>The loop \<open>for stmt in self.stmts: stmt.eval(ctx)\<close> of \<open>Program.eval\<close> and \<open>Block.eval\<close>.\<close>

definition stmts_eval :: "evaluator \<Rightarrow> ctx \<Rightarrow> stmt list \<Rightarrow> state \<Rightarrow> unit result" where
  "stmts_eval E c stmts s =
    (case stmts of
       [] \<Rightarrow> Some (Inr (), s)
     | st # rest \<Rightarrow> bind_result (ev_stmt E c st s) (\<lambda>u s1. ev_stmts E c rest s1))"

primrec evaluator_at :: "nat \<Rightarrow> host \<Rightarrow> evaluator" where
  "evaluator_at 0 H =
     \<lparr>ev_expr = (\<lambda>c e s. None), ev_args = (\<lambda>c es s. None), ev_stmt = (\<lambda>c st s. None),
      ev_block = (\<lambda>c stmts s. None), ev_stmts = (\<lambda>c stmts s. None)\<rparr>"
| "evaluator_at (Suc n) H =
     \<lparr>ev_expr = expr_eval n H (evaluator_at n H), ev_args = args_eval (evaluator_at n H),
      ev_stmt = stmt_eval (evaluator_at n H), ev_block = block_eval (evaluator_at n H),
      ev_stmts = stmts_eval (evaluator_at n H)\<rparr>"

definition eval_expr :: "nat \<Rightarrow> host \<Rightarrow> ctx \<Rightarrow> expr \<Rightarrow> state \<Rightarrow> val result" where
  "eval_expr n H = ev_expr (evaluator_at n H)"

definition eval_args :: "nat \<Rightarrow> host \<Rightarrow> ctx \<Rightarrow> expr list \<Rightarrow> state \<Rightarrow> val list result" where
  "eval_args n H = ev_args (evaluator_at n H)"

definition eval_stmt :: "nat \<Rightarrow> host \<Rightarrow> ctx \<Rightarrow> stmt \<Rightarrow> state \<Rightarrow> unit result" where
  "eval_stmt n H = ev_stmt (evaluator_at n H)"

definition eval_block :: "nat \<Rightarrow> host \<Rightarrow> ctx \<Rightarrow> stmt list \<Rightarrow> state \<Rightarrow> unit result" where
  "eval_block n H = ev_block (evaluator_at n H)"

text \<open>\<open>Program.eval\<close>, on the statements of the program.\<close>

definition eval_stmts :: "nat \<Rightarrow> host \<Rightarrow> ctx \<Rightarrow> stmt list \<Rightarrow> state \<Rightarrow> unit result" where
  "eval_stmts n H = ev_stmts (evaluator_at n H)"

section \<open>Semantic validation\<close>






















text \<open>
  The uses of \<open>return\<close>, \<open>this\<close> and \<open>super\<close> in a program, each with the \<open>Function\<close> and
  \<open>Class\<close> nodes that enclose it, innermost first.
\<close>

datatype use = UseReturn | UseThis | UseSuper




section \<open>Running a program\<close>

text \<open>The state in which a program starts: one global frame, no object, no output.\<close>

definition initial_state :: state where
  "initial_state = \<lparr>frames = [[]], instances = [], next_id = 0, stdout = []\<rparr>"

text \<open>
  \<open>Program.eval\<close> in the global context, from the initial state: the outcome of the
  program and the lines it has printed.
\<close>

definition run :: "nat \<Rightarrow> host \<Rightarrow> stmt list \<Rightarrow> ((exn + unit) \<times> string list) option" where
  "run n H program =
     map_option (\<lambda>(r, s). (r, stdout s)) (eval_stmts n H [0] program initial_state)"




text \<open>
  The program \<open>fun first() { print "first"; } fun second() { print "second"; }
  nil(first(), second()); print "after";\<close>
\<close>

definition call_of_nil :: "stmt list" where
  "call_of_nil =
     [Function ''first'' [] [Print (Literal (LStr ''first''))],
      Function ''second'' [] [Print (Literal (LStr ''second''))],
      ExprStmt (Call (Literal LNil) [Call (Var ''first'') [], Call (Var ''second'') []]),
      Print (Literal (LStr ''after''))]"

text \<open>A state in which the global \<open>p\<close> is an instance of a class \<open>P\<close>.\<close>

definition instance_in_scope :: state where
  "instance_in_scope =
     \<lparr>frames = [[(''p'', VInstance 0)]],
      instances = [LoxInstance (LoxClass 0 ''P'' [] None) []],
      next_id = 1, stdout = []\<rparr>"

text \<open>The method \<open>init(x) { this.x = x; return 7; }\<close> of a class declared at the top level.\<close>

definition point_init :: lox_function where
  "point_init =
     LoxFunction 0 ''init'' [''x'']
       [ExprStmt (Setattr This ''x'' (Var ''x'')),
        Return (Some (Literal (LNumber (Finite False [7] 1))))] [0]"

text \<open>The class \<open>class P { init(x) { this.x = x; return 7; } }\<close>.\<close>

definition point_class :: lox_class where
  "point_class = LoxClass 1 ''P'' [(''init'', point_init)] None"

text \<open>
  The program \<open>class P { init(x) { this.x = x; return 7; } } var p = P(42); print p;
  print p.x; print p.init("z"); print p.x;\<close>
\<close>

definition point_program :: "stmt list" where
  "point_program =
     [Class ''P''
        [(''init'', [''x''],
          [ExprStmt (Setattr This ''x'' (Var ''x'')),
           Return (Some (Literal (LNumber (Finite False [7] 1))))])] None,
      VarDef ''p'' (Call (Var ''P'') [Literal (LNumber (Finite False [4, 2] 2))]),
      Print (Var ''p''),
      Print (Getattr (Var ''p'') ''x''),
      Print (Call (Getattr (Var ''p'') ''init'') [Literal (LStr ''z'')]),
      Print (Getattr (Var ''p'') ''x'')]"

text \<open>
  The program \<open>class A { init() { print "before"; -"x"; print "unreachable"; } }
  A(); print "after";\<close>
\<close>

definition failing_init_program :: "stmt list" where
  "failing_init_program =
     [Class ''A''
        [(''init'', [],
          [Print (Literal (LStr ''before'')),
           ExprStmt (UnaryOp (Literal (LStr ''x'')) OpNeg),
           Print (Literal (LStr ''unreachable''))])] None,
      ExprStmt (Call (Var ''A'') []),
      Print (Literal (LStr ''after''))]"

text \<open>The program \<open>print "before"; -"x"; print "after";\<close>\<close>

definition failing_statement_program :: "stmt list" where
  "failing_statement_program =
     [Print (Literal (LStr ''before'')),
      ExprStmt (UnaryOp (Literal (LStr ''x'')) OpNeg),
      Print (Literal (LStr ''after''))]"

text \<open>The program \<open>class A {} var a = A(); print a.klass; print a.missing;\<close>\<close>

definition klass_program :: "stmt list" where
  "klass_program =
     [Class ''A'' [] None,
      VarDef ''a'' (Call (Var ''A'') []),
      Print (Getattr (Var ''a'') ''klass''),
      Print (Getattr (Var ''a'') ''missing'')]"

text \<open>The program \<open>fun f() {} print f.name;\<close>\<close>

definition function_name_program :: "stmt list" where
  "function_name_program =
     [Function ''f'' [] [],
      Print (Getattr (Var ''f'') ''name'')]"





text \<open>
  The program \<open>class P { init() {} } fun f() { return "seven"; } var p = P();
  p.init = f; print p.init();\<close>
\<close>

definition shadowed_init_program :: "stmt list" where
  "shadowed_init_program =
     [Class ''P'' [(''init'', [], [])] None,
      Function ''f'' [] [Return (Some (Literal (LStr ''seven'')))],
      VarDef ''p'' (Call (Var ''P'') []),
      ExprStmt (Setattr (Var ''p'') ''init'' (Var ''f'')),
      Print (Call (Getattr (Var ''p'') ''init'') [])]"


section \<open>The equations of the evaluator\<close>

lemma bind_result_None: "bind_result None f = None"
  by (simp add: bind_result_def)

lemma bind_result_raise: "bind_result (Some (Inl e, s)) f = Some (Inl e, s)"
  by (simp add: bind_result_def)

lemma bind_result_value: "bind_result (Some (Inr v, s)) f = f v s"
  by (simp add: bind_result_def)

lemma bind_result_weak_cong: "m = m' \<Longrightarrow> bind_result m f = bind_result m' f"
  by simp

lemmas bind_result_simps = bind_result_None bind_result_raise bind_result_value

lemmas eval_defs = eval_expr_def eval_args_def eval_stmt_def eval_block_def eval_stmts_def

lemma eval_0:
  "eval_expr 0 H c e s = None" "eval_args 0 H c es s = None" "eval_stmt 0 H c st s = None"
  "eval_block 0 H c stmts s = None" "eval_stmts 0 H c stmts s = None"
  by (simp_all add: eval_defs)

lemma eval_BinOp:
  "eval_expr (Suc n) H c (BinOp left right op) s =
     bind_result (eval_expr n H c left s) (\<lambda>left_value s1.
     bind_result (eval_expr n H c right s1) (\<lambda>right_value s2.
       (case apply_binop H n s2 op left_value right_value of
          None \<Rightarrow> None
        | Some r \<Rightarrow> Some (r, s2))))"
  unfolding eval_defs by (simp add: expr_eval_def)

lemma eval_Var:
  "eval_expr (Suc n) H c (Var name) s =
     (case ctx_lookup s c name of
        Some v \<Rightarrow> Some (Inr v, s)
      | None \<Rightarrow> Some (Inl (NameError (variavel_nao_existe name)), s))"
  unfolding eval_defs by (simp add: expr_eval_def)

lemma eval_Literal: "eval_expr (Suc n) H c (Literal l) s = Some (Inr (literal_value l), s)"
  unfolding eval_defs by (simp add: expr_eval_def)

lemma eval_And:
  "eval_expr (Suc n) H c (And left right) s =
     bind_result (eval_expr n H c left s) (\<lambda>left_val s1.
       if left_val = VBool False \<or> left_val = VNil then Some (Inr left_val, s1)
       else eval_expr n H c right s1)"
  unfolding eval_defs by (simp add: expr_eval_def)

lemma eval_Or:
  "eval_expr (Suc n) H c (Or left right) s =
     bind_result (eval_expr n H c left s) (\<lambda>left_val s1.
       if left_val \<noteq> VBool False \<and> left_val \<noteq> VNil then Some (Inr left_val, s1)
       else eval_expr n H c right s1)"
  unfolding eval_defs by (simp add: expr_eval_def cong del: if_weak_cong)

lemma eval_UnaryOp:
  "eval_expr (Suc n) H c (UnaryOp operand op) s =
     bind_result (eval_expr n H c operand s) (\<lambda>v s1. Some (apply_unop op v, s1))"
  unfolding eval_defs by (simp add: expr_eval_def)

lemma eval_Call:
  "eval_expr (Suc n) H c (Call callee params) s =
     bind_result (eval_expr n H c callee s) (\<lambda>func s1.
     bind_result (eval_args n H c params s1) (\<lambda>args s2.
       if callable func then call_value (eval_block n H) func args s2
       else Some (Inl (TypeError (nao_e_funcao s2 func)), s2)))"
  unfolding eval_defs by (simp add: expr_eval_def)

lemma eval_This:
  "eval_expr (Suc n) H c This s =
     (case ctx_lookup s c ''this'' of
        Some v \<Rightarrow> Some (Inr v, s)
      | None \<Rightarrow> Some (Inl (NameError (variavel_nao_existe ''this'')), s))"
  unfolding eval_defs by (simp add: expr_eval_def)

lemma eval_Super: "eval_expr (Suc n) H c (Super name) s = Some (super_eval s c name)"
  unfolding eval_defs by (simp add: expr_eval_def)

lemma eval_Assign:
  "eval_expr (Suc n) H c (Assign name value) s =
     bind_result (eval_expr n H c value s) (\<lambda>result s1.
       (case assign s1 c name result of
          None \<Rightarrow> Some (Inl (KeyError name), s1)
        | Some s2 \<Rightarrow> Some (Inr result, s2)))"
  unfolding eval_defs by (simp add: expr_eval_def)

lemma eval_Getattr:
  "eval_expr (Suc n) H c (Getattr obj name) s =
     bind_result (eval_expr n H c obj s) (\<lambda>obj_value s1.
       Some (getattr_value H s1 obj_value name))"
  unfolding eval_defs by (simp add: expr_eval_def)

lemma eval_Setattr:
  "eval_expr (Suc n) H c (Setattr obj name value) s =
     bind_result (eval_expr n H c obj s) (\<lambda>obj_val s1.
     bind_result (eval_expr n H c value s1) (\<lambda>v s2. setattr_value s2 obj_val name v))"
  unfolding eval_defs by (simp add: expr_eval_def)

lemma eval_args_Nil: "eval_args (Suc n) H c [] s = Some (Inr [], s)"
  unfolding eval_defs by (simp add: args_eval_def)

lemma eval_args_Cons:
  "eval_args (Suc n) H c (param # params) s =
     bind_result (eval_expr n H c param s) (\<lambda>v s1.
     bind_result (eval_args n H c params s1) (\<lambda>vs s2. Some (Inr (v # vs), s2)))"
  unfolding eval_defs by (simp add: args_eval_def)

lemma eval_ExprStmt:
  "eval_stmt (Suc n) H c (ExprStmt e) s =
     bind_result (eval_expr n H c e s) (\<lambda>v s1. Some (Inr (), s1))"
  unfolding eval_defs by (simp add: stmt_eval_def)

lemma eval_Print:
  "eval_stmt (Suc n) H c (Print e) s =
     bind_result (eval_expr n H c e s) (\<lambda>v s1. Some (Inr (), lox_print s1 v))"
  unfolding eval_defs by (simp add: stmt_eval_def)

lemma eval_Return:
  "eval_stmt (Suc n) H c (Return value) s =
     (case value of
        None \<Rightarrow> Some (Inl (LoxReturn VNil), s)
      | Some e \<Rightarrow>
          bind_result (eval_expr n H c e s) (\<lambda>return_value s1.
            Some (Inl (LoxReturn return_value), s1)))"
  unfolding eval_defs by (simp add: stmt_eval_def)

lemma eval_VarDef:
  "eval_stmt (Suc n) H c (VarDef name initializer) s =
     bind_result (eval_expr n H c initializer s) (\<lambda>v s1. Some (Inr (), var_def s1 c name v))"
  unfolding eval_defs by (simp add: stmt_eval_def)

lemma eval_If:
  "eval_stmt (Suc n) H c (If condition then_branch else_branch) s =
     bind_result (eval_expr n H c condition s) (\<lambda>condition_val s1.
       if condition_val \<noteq> VBool False \<and> condition_val \<noteq> VNil
       then eval_stmt n H c then_branch s1
       else eval_stmt n H c else_branch s1)"
  unfolding eval_defs by (simp add: stmt_eval_def)

lemma eval_While:
  "eval_stmt (Suc n) H c (While condition body) s =
     bind_result (eval_expr n H c condition s) (\<lambda>condition_val s1.
       if condition_val = VBool False \<or> condition_val = VNil then Some (Inr (), s1)
       else bind_result (eval_stmt n H c body s1) (\<lambda>u s2.
              eval_stmt n H c (While condition body) s2))"
  unfolding eval_defs by (simp add: stmt_eval_def)

lemma eval_Block: "eval_stmt (Suc n) H c (Block stmts) s = eval_block n H c stmts s"
  unfolding eval_defs by (simp add: stmt_eval_def)

lemma eval_Function:
  "eval_stmt (Suc n) H c (Function name params body) s =
     (let (function, s1) = new_function s name params body c
      in Some (Inr (), var_def s1 c name (VFunction function)))"
  unfolding eval_defs by (simp add: stmt_eval_def)

lemma eval_Class:
  "eval_stmt (Suc n) H c (Class name methods base) s = Some (class_eval s c name methods base)"
  unfolding eval_defs by (simp add: stmt_eval_def)

lemma eval_block_Suc:
  "eval_block (Suc n) H c stmts s =
     (let (new_ctx, s1) = push s c [] in eval_stmts n H new_ctx stmts s1)"
  unfolding eval_defs by (simp add: block_eval_def)

lemma eval_stmts_Nil: "eval_stmts (Suc n) H c [] s = Some (Inr (), s)"
  unfolding eval_defs by (simp add: stmts_eval_def)

lemma eval_stmts_Cons:
  "eval_stmts (Suc n) H c (st # stmts) s =
     bind_result (eval_stmt n H c st s) (\<lambda>u s1. eval_stmts n H c stmts s1)"
  unfolding eval_defs by (simp add: stmts_eval_def)

lemmas eval_Suc =
  eval_BinOp eval_Var eval_Literal eval_And eval_Or eval_UnaryOp eval_Call eval_This
  eval_Super eval_Assign eval_Getattr eval_Setattr eval_args_Nil eval_args_Cons eval_ExprStmt
  eval_Print eval_Return eval_VarDef eval_If eval_While eval_Block eval_Function eval_Class
  eval_block_Suc eval_stmts_Nil eval_stmts_Cons

lemmas eval_numeral = eval_Suc [where n = "pred_numeral k", folded numeral_eq_Suc] for k

lemmas eval_simps = eval_0 eval_Suc eval_numeral

lemmas py_eq_numeral = py_eq.simps(2) [where n = "pred_numeral k", folded numeral_eq_Suc] for k

text \<open>The rules that evaluate a program on concrete input.\<close>

lemmas run_simps = run_def initial_state_def eval_simps bind_result_simps
  lox_print_def push_def var_def_def frame_at_def new_function_def new_instance_def
  class_eval_def make_class_def call_value_def class_call_def class_call_handler_def
  call_function_def bind_def getattr_value_def function_getattr_def instance_getattr_def
  instance_at_def instance_str_def function_str_def
  setattr_value_def set_field_def super_eval_def apply_binop_def apply_unop_def
  lox_eq_def lox_ne_def dict_of_def Let_def py_eq_numeral

section \<open>Properties of the display of numbers\<close>

lemma below_ten:
  "(d::nat) < 10 \<Longrightarrow>
     d = 0 \<or> d = 1 \<or> d = 2 \<or> d = 3 \<or> d = 4 \<or> d = 5 \<or> d = 6 \<or> d = 7 \<or> d = 8 \<or> d = 9"
  by arith

lemma digit_char_not_dot: "digit_char d \<noteq> CHR ''.''"
proof -
  have "d mod 10 < 10" by simp
  from below_ten [OF this] show ?thesis
    unfolding digit_char_def by (elim disjE) simp_all
qed

lemma digit_char_zero: "d < 10 \<Longrightarrow> (digit_char d = CHR ''0'') = (d = 0)"
  using below_ten [of d] unfolding digit_char_def by (elim disjE | simp)+

lemma count_dots_append: "count_dots (a @ b) = count_dots a + count_dots b"
  by (simp add: count_dots_def)

lemma count_dots_Cons: "count_dots (x # a) = (if x = CHR ''.'' then 1 else 0) + count_dots a"
  by (simp add: count_dots_def)

lemma count_dots_Nil: "count_dots [] = 0"
  by (simp add: count_dots_def)

lemma count_dots_digits: "count_dots (map digit_char ds) = 0"
  by (induction ds) (simp_all add: count_dots_def digit_char_not_dot)

lemma count_dots_take: "count_dots (take n (map digit_char ds)) = 0"
  by (metis count_dots_digits take_map)

lemma count_dots_drop: "count_dots (drop n (map digit_char ds)) = 0"
  by (metis count_dots_digits drop_map)

lemma count_dots_zeros: "count_dots (replicate n CHR ''0'') = 0"
  by (simp add: count_dots_def)

lemmas count_dots_simps =
  count_dots_append count_dots_Cons count_dots_Nil count_dots_digits count_dots_take
  count_dots_drop count_dots_zeros

lemma removesuffix_append: "suffix \<noteq> [] \<Longrightarrow> removesuffix (s @ suffix) suffix = s"
  by (simp add: removesuffix_def)

lemma removesuffix_last:
  "s \<noteq> [] \<Longrightarrow> suffix \<noteq> [] \<Longrightarrow> last s \<noteq> last suffix \<Longrightarrow> removesuffix s suffix = s"
  unfolding removesuffix_def
  by (metis append_take_drop_id last_appendR)

lemma last_digits:
  "ds \<noteq> [] \<Longrightarrow> list_all (\<lambda>d. d < 10) ds \<Longrightarrow> last ds \<noteq> 0
     \<Longrightarrow> last (map digit_char ds) \<noteq> CHR ''0''"
  by (simp add: last_map digit_char_zero list_all_iff)

lemma canonical_nonzero:
  assumes "canonical (Finite sg ds p)" and "p \<noteq> 1 \<or> ds \<noteq> [0]"
  shows "ds \<noteq> [] \<and> list_all (\<lambda>d. d < 10) ds \<and> last ds \<noteq> 0"
  using assms by (auto split: if_splits)

lemma not_all_zero_drop:
  assumes "last ds \<noteq> (0::nat)" and "k < length ds"
  shows "\<not> list_all (\<lambda>d. d = 0) (drop k ds)"
proof -
  from assms have "drop k ds \<noteq> []" by simp
  moreover from assms have "last (drop k ds) = last ds" by simp
  ultimately have "last ds \<in> set (drop k ds)" by (metis last_in_set)
  with assms(1) show ?thesis by (auto simp: list_all_iff)
qed

text \<open>An integral float in positional notation: the digits, padded with zeros.\<close>

lemma show_float_integral:
  assumes "0 < p" and "length ds \<le> nat p" and "p \<le> 16"
  shows "show_float (Finite sg ds p) =
           (if sg then ''-'' else '''') @ map digit_char ds @
           replicate (nat p - length ds) CHR ''0''"
proof -
  let ?t = "(if sg then ''-'' else '''') @ map digit_char ds @
            replicate (nat p - length ds) CHR ''0''"
  have "float_str (Finite sg ds p) = ?t @ ''.0''"
    using assms by (simp add: Let_def)
  then have "show_float (Finite sg ds p) = removesuffix (?t @ ''.0'') ''.0''"
    by (simp only: show_float_def)
  also have "\<dots> = ?t"
    by (rule removesuffix_append) simp
  finally show ?thesis .
qed

text \<open>A float with digits on both sides of the point.\<close>

lemma show_float_fraction:
  assumes "0 < p" and "nat p < length ds" and "p \<le> 16" and "list_all (\<lambda>d. d < 10) ds"
    and "last ds \<noteq> 0"
  shows "show_float (Finite sg ds p) =
           (if sg then ''-'' else '''') @ take (nat p) (map digit_char ds) @ ''.'' @
           drop (nat p) (map digit_char ds)"
proof -
  let ?t = "(if sg then ''-'' else '''') @ take (nat p) (map digit_char ds) @ ''.'' @
            drop (nat p) (map digit_char ds)"
  have str: "float_str (Finite sg ds p) = ?t"
    using assms by (simp add: Let_def)
  have ne: "ds \<noteq> []" using assms by auto
  have "drop (nat p) (map digit_char ds) \<noteq> []" using assms by simp
  then have "last ?t = last (drop (nat p) (map digit_char ds))" by simp
  also have "\<dots> = last (map digit_char ds)" using assms by simp
  finally have "last ?t \<noteq> CHR ''0''" using last_digits [OF ne assms(4) assms(5)] by simp
  then have "removesuffix ?t ''.0'' = ?t"
    by (intro removesuffix_last) simp_all
  with str show ?thesis by (simp add: show_float_def)
qed

text \<open>A float below one in positional notation.\<close>

lemma show_float_small:
  assumes "p \<le> 0" and "-4 < p" and "ds \<noteq> []" and "list_all (\<lambda>d. d < 10) ds"
    and "last ds \<noteq> 0"
  shows "show_float (Finite sg ds p) =
           (if sg then ''-'' else '''') @ ''0.'' @ replicate (nat (- p)) CHR ''0'' @
           map digit_char ds"
proof -
  let ?t = "(if sg then ''-'' else '''') @ ''0.'' @ replicate (nat (- p)) CHR ''0'' @
            map digit_char ds"
  have str: "float_str (Finite sg ds p) = ?t"
    using assms by (simp add: Let_def)
  have "map digit_char ds \<noteq> []" using assms by simp
  then have "last ?t = last (map digit_char ds)" by simp
  then have "last ?t \<noteq> CHR ''0''" using last_digits [OF assms(3,4,5)] by simp
  then have "removesuffix ?t ''.0'' = ?t"
    by (intro removesuffix_last) simp_all
  with str show ?thesis by (simp add: show_float_def)
qed

lemma show_float_zero: "show_float (Finite sg [0] 1) = (if sg then ''-0'' else ''0'')"
  by (cases sg) (simp_all add: show_float_def removesuffix_def digit_char_def)

lemma count_dots_zero_display: "count_dots (show_float (Finite sg [0] 1)) = 0"
  by (cases sg) (simp_all add: show_float_zero count_dots_def)

lemma is_integer_zero: "is_integer (Finite sg [0] 1)"
  by simp

lemma count_dots_small:
  assumes "p \<le> 0" and "-4 < p" and "ds \<noteq> []" and "list_all (\<lambda>d. d < 10) ds"
    and "last ds \<noteq> 0"
  shows "count_dots (show_float (Finite sg ds p)) = 1"
  by (cases sg) (simp_all add: show_float_small [OF assms] count_dots_simps)

lemma count_dots_fraction:
  assumes "0 < p" and "nat p < length ds" and "p \<le> 16" and "list_all (\<lambda>d. d < 10) ds"
    and "last ds \<noteq> 0"
  shows "count_dots (show_float (Finite sg ds p)) = 1"
  by (cases sg) (simp_all add: show_float_fraction [OF assms] count_dots_simps)

lemma count_dots_integral:
  assumes "0 < p" and "length ds \<le> nat p" and "p \<le> 16"
  shows "count_dots (show_float (Finite sg ds p)) = 0"
  by (cases sg) (simp_all add: show_float_integral [OF assms] count_dots_simps)

lemma three_ranges:
  fixes p :: int and k :: nat
  shows "p \<le> 0 \<or> (0 < p \<and> nat p < k) \<or> (0 < p \<and> k \<le> nat p)"
  by linarith

lemma show_float_positional:
  assumes "canonical (Finite sg ds p)" and "-4 < p" and "p \<le> 16"
  shows "count_dots (show_float (Finite sg ds p)) =
           (if is_integer (Finite sg ds p) then 0 else 1)"
proof (cases "p = 1 \<and> ds = [0]")
  case True
  then have "Finite sg ds p = Finite sg [0] 1" by simp
  then show ?thesis
    by (simp only: count_dots_zero_display is_integer_zero if_True)
next
  case False
  then have "p \<noteq> 1 \<or> ds \<noteq> [0]" by blast
  from canonical_nonzero [OF assms(1) this]
  have wf: "ds \<noteq> []" "list_all (\<lambda>d. d < 10) ds" "last ds \<noteq> 0" by blast+
  from three_ranges [of p "length ds"] show ?thesis
  proof (elim disjE conjE)
    assume small: "p \<le> 0"
    have "\<not> list_all (\<lambda>d. d = 0) (drop 0 ds)"
      by (rule not_all_zero_drop [OF wf(3)]) (use wf(1) in simp)
    with small have "\<not> is_integer (Finite sg ds p)" by simp
    with count_dots_small [OF small assms(2) wf] show ?thesis by simp
  next
    assume frac: "0 < p" "nat p < length ds"
    have "\<not> is_integer (Finite sg ds p)"
      using not_all_zero_drop [OF wf(3) frac(2)] by simp
    with count_dots_fraction [OF frac assms(3) wf(2,3)] show ?thesis by simp
  next
    assume int: "0 < p" "length ds \<le> nat p"
    then have "is_integer (Finite sg ds p)" by simp
    with count_dots_integral [OF int assms(3)] show ?thesis by simp
  qed
qed

lemma show_float_42: "show_float (Finite False [4, 2] 2) = ''42''"
  by code_simp

lemma show_float_3_5: "show_float (Finite False [3, 5] 1) = ''3.5''"
  by code_simp

lemma show_float_15e15: "show_float (Finite False [1, 5] 17) = ''1.5e+16''"
  by code_simp

lemma show_float_1em7: "show_float (Finite False [1] (- 6)) = ''1e-07''"
  by code_simp

text \<open>
  Claim C8, as amended. For every Number whose \<open>repr\<close> is positional (the decimal point
  lies within \<open>-4 < decpt \<le> 16\<close>, that is zero or \<open>1e-4 \<le> |x| < 1e16\<close>), the display
  form used by \<open>print\<close> contains no \<open>.\<close> when the value is integral and exactly one
  \<open>.\<close> when it is not. (Beyond that range Python writes the float in scientific
  notation, and \<open>removesuffix('.0')\<close> leaves that form as it is.)
\<close>

theorem show_number_positional:
  assumes "canonical (Finite sg ds p)" and "-4 < p" and "p \<le> 16"
  shows "count_dots (show_value s (VNumber (Finite sg ds p))) =
           (if is_integer (Finite sg ds p) then 0 else 1)"
  using show_float_positional [OF assms] by simp

theorem show_number_positional_witness:
  "canonical (Finite False [4, 2] 2) \<and> canonical (Finite False [3, 5] 1) \<and>
   is_integer (Finite False [4, 2] 2) \<and> \<not> is_integer (Finite False [3, 5] 1) \<and>
   show_value initial_state (VNumber (Finite False [4, 2] 2)) = ''42'' \<and>
   count_dots (show_value initial_state (VNumber (Finite False [4, 2] 2))) = 0 \<and>
   show_value initial_state (VNumber (Finite False [3, 5] 1)) = ''3.5'' \<and>
   count_dots (show_value initial_state (VNumber (Finite False [3, 5] 1))) = 1"
  using show_number_positional [of False "[4, 2]" 2 initial_state]
    show_number_positional [of False "[3, 5]" 1 initial_state]
  by (simp only: show_value.simps show_float_42 show_float_3_5) (simp add: count_dots_def)

text \<open>
  Claim C8 as stated fails in both halves: the integral Number \<open>1.5e16\<close> is displayed as
  \<open>1.5e+16\<close>, with a \<open>.\<close>, and the non-integral Number \<open>1e-07\<close> is displayed as
  \<open>1e-07\<close>, with none.
\<close>

theorem show_number_dots_counterexample:
  "canonical (Finite False [1, 5] 17) \<and> is_integer (Finite False [1, 5] 17) \<and>
   show_value initial_state (VNumber (Finite False [1, 5] 17)) = ''1.5e+16'' \<and>
   count_dots (show_value initial_state (VNumber (Finite False [1, 5] 17))) = 1 \<and>
   canonical (Finite False [1] (- 6)) \<and> \<not> is_integer (Finite False [1] (- 6)) \<and>
   show_value initial_state (VNumber (Finite False [1] (- 6))) = ''1e-07'' \<and>
   count_dots (show_value initial_state (VNumber (Finite False [1] (- 6)))) = 0"
  by (simp only: show_value.simps show_float_15e15 show_float_1em7) (simp add: count_dots_def)

section \<open>Equality\<close>

















section \<open>Short-circuit evaluation\<close>

lemma truthy_iff: "truthy v = (v \<noteq> VBool False \<and> v \<noteq> VNil)"
  by (cases v) auto

lemma show_float_zero_literal: "show_float (Finite False [0] 1) = ''0''"
  by (simp add: show_float_zero)

lemma print_zero_or_hi:
  "run 4 H [Print (Or (Literal (LNumber (Finite False [0] 1))) (Literal (LStr ''hi'')))] =
     Some (Inr (), [''0''])"
  by (simp add: run_simps show_float_zero_literal cong: bind_result_weak_cong)

lemma print_nil_or_hi:
  "run 4 H [Print (Or (Literal LNil) (Literal (LStr ''hi'')))] = Some (Inr (), [''hi''])"
  by (simp add: run_simps cong: bind_result_weak_cong)

text \<open>
  Claim C2. \<open>Or.eval\<close> evaluates the left operand first. If its value is truthy (any
  value other than \<open>nil\<close> and \<open>false\<close>; the number 0 and the empty string are truthy),
  the \<open>Or\<close> returns that value in the state the left operand left, whatever the right
  operand is: the right operand is not evaluated. Otherwise it returns what the right
  operand evaluates to in that state. An exception of the left operand is the outcome
  of the \<open>Or\<close>. The program \<open>print 0 or "hi";\<close> prints \<open>0\<close> and \<open>print nil or "hi";\<close>
  prints \<open>hi\<close>.
\<close>

theorem or_short_circuit:
  "(eval_expr n H c left s = Some (Inr v, s') \<and> truthy v
      \<longrightarrow> eval_expr (Suc n) H c (Or left right) s = Some (Inr v, s')) \<and>
   (eval_expr n H c left s = Some (Inr v, s') \<and> \<not> truthy v
      \<longrightarrow> eval_expr (Suc n) H c (Or left right) s = eval_expr n H c right s') \<and>
   (eval_expr n H c left s = Some (Inl e, s')
      \<longrightarrow> eval_expr (Suc n) H c (Or left right) s = Some (Inl e, s')) \<and>
   truthy v = (v \<noteq> VNil \<and> v \<noteq> VBool False) \<and>
   truthy (VNumber (Finite False [0] 1)) \<and> truthy (VStr []) \<and>
   run 4 H [Print (Or (Literal (LNumber (Finite False [0] 1))) (Literal (LStr ''hi'')))] =
     Some (Inr (), [''0'']) \<and>
   run 4 H [Print (Or (Literal LNil) (Literal (LStr ''hi'')))] = Some (Inr (), [''hi''])"
proof -
  have "truthy v = (v \<noteq> VNil \<and> v \<noteq> VBool False)"
    by (auto simp: truthy_iff)
  then show ?thesis
    by (simp add: eval_Or bind_result_simps truthy_iff print_zero_or_hi print_nil_or_hi)
qed

theorem or_short_circuit_witness:
  "\<forall>H. eval_expr 1 H [0] (Literal (LNumber (Finite False [0] 1))) initial_state =
          Some (Inr (VNumber (Finite False [0] 1)), initial_state) \<and>
        truthy (VNumber (Finite False [0] 1)) \<and>
        eval_expr 2 H [0] (Or (Literal (LNumber (Finite False [0] 1))) (Var ''unbound''))
          initial_state = Some (Inr (VNumber (Finite False [0] 1)), initial_state) \<and>
        eval_expr 1 H [0] (Literal LNil) initial_state = Some (Inr VNil, initial_state) \<and>
        \<not> truthy VNil \<and>
        eval_expr 2 H [0] (Or (Literal LNil) (Literal (LStr ''hi''))) initial_state =
          Some (Inr (VStr ''hi''), initial_state)"
proof (intro allI)
  fix H
  show "eval_expr 1 H [0] (Literal (LNumber (Finite False [0] 1))) initial_state =
          Some (Inr (VNumber (Finite False [0] 1)), initial_state) \<and>
        truthy (VNumber (Finite False [0] 1)) \<and>
        eval_expr 2 H [0] (Or (Literal (LNumber (Finite False [0] 1))) (Var ''unbound''))
          initial_state = Some (Inr (VNumber (Finite False [0] 1)), initial_state) \<and>
        eval_expr 1 H [0] (Literal LNil) initial_state = Some (Inr VNil, initial_state) \<and>
        \<not> truthy VNil \<and>
        eval_expr 2 H [0] (Or (Literal LNil) (Literal (LStr ''hi''))) initial_state =
          Some (Inr (VStr ''hi''), initial_state)"
    using or_short_circuit [where n = 1 and H = H and c = "[0]" and s = initial_state
        and s' = initial_state and left = "Literal (LNumber (Finite False [0] 1))"
        and right = "Var ''unbound''" and v = "VNumber (Finite False [0] 1)"]
      or_short_circuit [where n = 1 and H = H and c = "[0]" and s = initial_state
        and s' = initial_state and left = "Literal LNil"
        and right = "Literal (LStr ''hi'')" and v = VNil]
    by (simp add: eval_simps bind_result_simps)
qed

section \<open>Calls of a value that is not callable\<close>

lemma run_call_of_nil:
  "run 12 H call_of_nil =
     Some (Inl (TypeError (quote @ ''None'' @ quote @ '' '' @ nao @ '' '' @ [CHR 0xE9] @
                           '' uma fun'' @ [CHR 0xE7, CHR 0xE3] @ ''o!'')),
           [''first'', ''second''])"
  by (simp add: call_of_nil_def run_simps nao_e_funcao_def cong: bind_result_weak_cong)

text \<open>
  Claim C10. In \<open>Call.eval\<close> the callee is evaluated, then every argument, from left to
  right, and only then is the callee tested with \<open>callable\<close>: when it is not callable,
  the \<open>TypeError\<close> (\<open>nao_e_funcao\<close>, "is not a function") is
  raised in the state that the arguments have left, and an exception of an argument
  comes before it. In the program \<open>call_of_nil\<close>, \<open>nil(first(), second())\<close> prints
  \<open>first\<close> and \<open>second\<close> before the error, and nothing after it.
\<close>

theorem call_evaluates_arguments_first:
  "(eval_expr n H c callee s = Some (Inr func, s') \<and> \<not> callable func \<and>
    eval_args n H c params s' = Some (Inr args, s'')
      \<longrightarrow> eval_expr (Suc n) H c (Call callee params) s =
            Some (Inl (TypeError (nao_e_funcao s'' func)), s'')) \<and>
   (eval_expr n H c callee s = Some (Inr func, s') \<and> \<not> callable func \<and>
    eval_args n H c params s' = Some (Inl e, s'')
      \<longrightarrow> eval_expr (Suc n) H c (Call callee params) s = Some (Inl e, s'')) \<and>
   (eval_expr n H c param s = Some (Inr v, s') \<and> eval_args n H c params s' = Some (Inr vs, s'')
      \<longrightarrow> eval_args (Suc n) H c (param # params) s = Some (Inr (v # vs), s'')) \<and>
   (eval_expr n H c param s = Some (Inl e, s')
      \<longrightarrow> eval_args (Suc n) H c (param # params) s = Some (Inl e, s')) \<and>
   run 12 H call_of_nil =
     Some (Inl (TypeError (quote @ ''None'' @ quote @ '' '' @ nao @ '' '' @ [CHR 0xE9] @
                           '' uma fun'' @ [CHR 0xE7, CHR 0xE3] @ ''o!'')),
           [''first'', ''second''])"
  by (simp add: eval_Call eval_args_Cons bind_result_simps run_call_of_nil)

theorem call_evaluates_arguments_first_witness:
  "\<forall>H. eval_expr 1 H [0] (Literal LNil) initial_state = Some (Inr VNil, initial_state) \<and>
        \<not> callable VNil \<and>
        eval_args 2 H [0] [Literal (LStr ''a'')] initial_state =
          Some (Inr [VStr ''a''], initial_state) \<and>
        eval_expr 3 H [0] (Call (Literal LNil) [Literal (LStr ''a'')]) initial_state =
          Some (Inl (TypeError (nao_e_funcao initial_state VNil)), initial_state) \<and>
        eval_args 2 H [0] [Var ''x''] initial_state =
          Some (Inl (NameError (variavel_nao_existe ''x'')), initial_state) \<and>
        eval_expr 3 H [0] (Call (Literal LNil) [Var ''x'']) initial_state =
          Some (Inl (NameError (variavel_nao_existe ''x'')), initial_state)"
proof (intro allI)
  fix H
  have lookup: "frame_at initial_state 0 = []"
    by (simp add: initial_state_def frame_at_def)
  show "eval_expr 1 H [0] (Literal LNil) initial_state = Some (Inr VNil, initial_state) \<and>
        \<not> callable VNil \<and>
        eval_args 2 H [0] [Literal (LStr ''a'')] initial_state =
          Some (Inr [VStr ''a''], initial_state) \<and>
        eval_expr 3 H [0] (Call (Literal LNil) [Literal (LStr ''a'')]) initial_state =
          Some (Inl (TypeError (nao_e_funcao initial_state VNil)), initial_state) \<and>
        eval_args 2 H [0] [Var ''x''] initial_state =
          Some (Inl (NameError (variavel_nao_existe ''x'')), initial_state) \<and>
        eval_expr 3 H [0] (Call (Literal LNil) [Var ''x'']) initial_state =
          Some (Inl (NameError (variavel_nao_existe ''x'')), initial_state)"
    using call_evaluates_arguments_first [where n = 2 and H = H and c = "[0]"
        and s = initial_state and s' = initial_state and s'' = initial_state
        and callee = "Literal LNil" and func = VNil and params = "[Literal (LStr ''a'')]"
        and args = "[VStr ''a'']"]
      call_evaluates_arguments_first [where n = 2 and H = H and c = "[0]"
        and s = initial_state and s' = initial_state and s'' = initial_state
        and callee = "Literal LNil" and func = VNil and params = "[Var ''x'']"
        and e = "NameError (variavel_nao_existe ''x'')"]
    by (simp add: eval_simps bind_result_simps lookup)
qed

section \<open>Field assignment\<close>

lemma set_field_lookup:
  assumes "instance_at s i = Some obj"
  shows "instance_at (set_field s i name v) i =
           Some (LoxInstance (klass obj) (AList.update name v (inst_fields obj)))"
  using assms by (auto simp: set_field_def instance_at_def split: if_splits)

lemma set_field_other:
  "j \<noteq> i \<Longrightarrow> instance_at (set_field s i name v) j = instance_at s j"
  by (auto simp: set_field_def instance_at_def split: option.splits)

lemma set_field_frame:
  "frames (set_field s i name v) = frames s \<and> stdout (set_field s i name v) = stdout s \<and>
   next_id (set_field s i name v) = next_id s"
  by (simp add: set_field_def split: option.splits)

text \<open>
  Claim C7, as amended. \<open>Setattr.eval\<close> evaluates \<open>obj\<close>, then \<open>value\<close>; an error of
  either ends the assignment. On an Instance it stores the value under the name in the
  field dictionary of the instance and evaluates to the value: afterwards the dictionary
  maps the name to the value and every other name as before, the class of the instance,
  the other instances, the frames and the output are unchanged. On a Class or a Function
  it raises the \<open>LoxError\<close> \<open>apenas_instancias\<close> ("Only instances can have fields."). On
  \<open>nil\<close>, a Bool, a Number or a Str it calls Python's \<open>setattr\<close>, which rejects the
  assignment with an error of Python's own: a \<open>TypeError\<close> for the name \<open>__class__\<close>,
  an \<open>AttributeError\<close> for every other name.
\<close>

theorem setattr_receivers:
  "(eval_expr n H c obj s = Some (Inr obj_val, s') \<and>
    eval_expr n H c rhs s' = Some (Inr v, s'')
      \<longrightarrow> eval_expr (Suc n) H c (Setattr obj name rhs) s =
            (case obj_val of
               VInstance i \<Rightarrow> Some (Inr v, set_field s'' i name v)
             | VClass k \<Rightarrow> Some (Inl (LoxError apenas_instancias), s'')
             | VFunction f \<Rightarrow> Some (Inl (LoxError apenas_instancias), s'')
             | VInitFunction f i \<Rightarrow> Some (Inl (LoxError apenas_instancias), s'')
             | _ \<Rightarrow> Some (Inl (if name = ''__class__'' then PyTypeError else PyAttributeError),
                          s''))) \<and>
   (eval_expr n H c obj s = Some (Inl e, s')
      \<longrightarrow> eval_expr (Suc n) H c (Setattr obj name rhs) s = Some (Inl e, s')) \<and>
   (eval_expr n H c obj s = Some (Inr obj_val, s') \<and>
    eval_expr n H c rhs s' = Some (Inl e, s'')
      \<longrightarrow> eval_expr (Suc n) H c (Setattr obj name rhs) s = Some (Inl e, s'')) \<and>
   (instance_at s'' i = Some inst
      \<longrightarrow> (\<exists>inst'. instance_at (set_field s'' i name v) i = Some inst' \<and>
             klass inst' = klass inst \<and>
             map_of (inst_fields inst') = (map_of (inst_fields inst))(name \<mapsto> v))) \<and>
   (\<forall>j. j \<noteq> i \<longrightarrow> instance_at (set_field s'' i name v) j = instance_at s'' j) \<and>
   frames (set_field s'' i name v) = frames s'' \<and>
   stdout (set_field s'' i name v) = stdout s'' \<and>
   next_id (set_field s'' i name v) = next_id s''"
proof (intro conjI impI allI)
  assume "eval_expr n H c obj s = Some (Inr obj_val, s') \<and>
    eval_expr n H c rhs s' = Some (Inr v, s'')"
  then show "eval_expr (Suc n) H c (Setattr obj name rhs) s =
            (case obj_val of
               VInstance i \<Rightarrow> Some (Inr v, set_field s'' i name v)
             | VClass k \<Rightarrow> Some (Inl (LoxError apenas_instancias), s'')
             | VFunction f \<Rightarrow> Some (Inl (LoxError apenas_instancias), s'')
             | VInitFunction f i \<Rightarrow> Some (Inl (LoxError apenas_instancias), s'')
             | _ \<Rightarrow> Some (Inl (if name = ''__class__'' then PyTypeError else PyAttributeError),
                          s''))"
    by (simp add: eval_Setattr bind_result_simps setattr_value_def py_setattr_def
          split: val.splits)
next
  assume "eval_expr n H c obj s = Some (Inl e, s')"
  then show "eval_expr (Suc n) H c (Setattr obj name rhs) s = Some (Inl e, s')"
    by (simp add: eval_Setattr bind_result_simps)
next
  assume "eval_expr n H c obj s = Some (Inr obj_val, s') \<and>
    eval_expr n H c rhs s' = Some (Inl e, s'')"
  then show "eval_expr (Suc n) H c (Setattr obj name rhs) s = Some (Inl e, s'')"
    by (simp add: eval_Setattr bind_result_simps)
next
  assume "instance_at s'' i = Some inst"
  then show "\<exists>inst'. instance_at (set_field s'' i name v) i = Some inst' \<and>
             klass inst' = klass inst \<and>
             map_of (inst_fields inst') = (map_of (inst_fields inst))(name \<mapsto> v)"
    by (simp add: set_field_lookup update_conv')
next
  fix j
  assume "j \<noteq> i"
  then show "instance_at (set_field s'' i name v) j = instance_at s'' j"
    by (rule set_field_other)
qed (simp_all add: set_field_frame)

theorem setattr_receivers_witness:
  "\<forall>H. eval_expr 1 H [0] (Var ''p'') instance_in_scope =
          Some (Inr (VInstance 0), instance_in_scope) \<and>
        eval_expr 1 H [0] (Literal (LStr ''v'')) instance_in_scope =
          Some (Inr (VStr ''v''), instance_in_scope) \<and>
        eval_expr 2 H [0] (Setattr (Var ''p'') ''x'' (Literal (LStr ''v''))) instance_in_scope =
          Some (Inr (VStr ''v''), set_field instance_in_scope 0 ''x'' (VStr ''v'')) \<and>
        instance_at instance_in_scope 0 = Some (LoxInstance (LoxClass 0 ''P'' [] None) []) \<and>
        instance_at (set_field instance_in_scope 0 ''x'' (VStr ''v'')) 0 =
          Some (LoxInstance (LoxClass 0 ''P'' [] None) [(''x'', VStr ''v'')]) \<and>
        instance_at (set_field instance_in_scope 0 ''x'' (VStr ''v'')) 1 = None \<and>
        frames (set_field instance_in_scope 0 ''x'' (VStr ''v'')) = [[(''p'', VInstance 0)]]"
proof (intro allI)
  fix H
  have frame: "frame_at instance_in_scope 0 = [(''p'', VInstance 0)]"
    by (simp add: instance_in_scope_def frame_at_def)
  have frames: "frames instance_in_scope = [[(''p'', VInstance 0)]]"
    by (simp add: instance_in_scope_def)
  have inst: "instance_at instance_in_scope 0 = Some (LoxInstance (LoxClass 0 ''P'' [] None) [])"
    by (simp add: instance_in_scope_def instance_at_def)
  have other: "instance_at instance_in_scope (Suc 0) = None"
    by (simp add: instance_in_scope_def instance_at_def)
  have upd: "instance_at (set_field instance_in_scope 0 ''x'' (VStr ''v'')) 0 =
          Some (LoxInstance (LoxClass 0 ''P'' [] None) [(''x'', VStr ''v'')])"
    by (simp add: set_field_lookup [OF inst])
  show "eval_expr 1 H [0] (Var ''p'') instance_in_scope =
          Some (Inr (VInstance 0), instance_in_scope) \<and>
        eval_expr 1 H [0] (Literal (LStr ''v'')) instance_in_scope =
          Some (Inr (VStr ''v''), instance_in_scope) \<and>
        eval_expr 2 H [0] (Setattr (Var ''p'') ''x'' (Literal (LStr ''v''))) instance_in_scope =
          Some (Inr (VStr ''v''), set_field instance_in_scope 0 ''x'' (VStr ''v'')) \<and>
        instance_at instance_in_scope 0 = Some (LoxInstance (LoxClass 0 ''P'' [] None) []) \<and>
        instance_at (set_field instance_in_scope 0 ''x'' (VStr ''v'')) 0 =
          Some (LoxInstance (LoxClass 0 ''P'' [] None) [(''x'', VStr ''v'')]) \<and>
        instance_at (set_field instance_in_scope 0 ''x'' (VStr ''v'')) 1 = None \<and>
        frames (set_field instance_in_scope 0 ''x'' (VStr ''v'')) = [[(''p'', VInstance 0)]]"
    using setattr_receivers [where n = 1 and H = H and c = "[0]" and s = instance_in_scope
        and s' = instance_in_scope and s'' = instance_in_scope and obj = "Var ''p''"
        and obj_val = "VInstance 0" and rhs = "Literal (LStr ''v'')" and v = "VStr ''v''"
        and name = "''x''" and i = 0 and inst = "LoxInstance (LoxClass 0 ''P'' [] None) []"]
    by (simp add: eval_simps bind_result_simps frame frames inst upd other)
qed

text \<open>
  Claim C7 as stated fails: the assignment \<open>1.x = nil\<close> on a Number is rejected with
  Python's \<open>AttributeError\<close>, not with the \<open>LoxError\<close> of the claim.
\<close>

theorem setattr_number_counterexample:
  "\<forall>H. eval_expr 2 H [0] (Setattr (Literal (LNumber (Finite False [1] 1))) ''x'' (Literal LNil))
          initial_state = Some (Inl PyAttributeError, initial_state) \<and>
        eval_expr 2 H [0] (Setattr (Literal (LNumber (Finite False [1] 1))) ''x'' (Literal LNil))
          initial_state \<noteq> Some (Inl (LoxError apenas_instancias), initial_state)"
  by (simp add: eval_simps bind_result_simps setattr_value_def py_setattr_def)

section \<open>Construction of instances\<close>

lemma new_instance_fresh:
  "new_instance s k = (i, s') \<Longrightarrow>
     instance_at s i = None \<and> instance_at s' i = Some (LoxInstance k [])"
  by (auto simp: new_instance_def instance_at_def)

lemma call_init_function:
  "call_function be f args s = Some (Inr v, s')
     \<Longrightarrow> call_value be (VInitFunction f i) args s = Some (Inr (VInstance i), s')"
  by (simp add: call_value_def bind_result_simps)

lemma getattr_init:
  assumes "instance_at s i = Some obj" and "map_of (inst_fields obj) ''init'' = None"
    and "get_method (klass obj) ''init'' = Inr m"
  shows "\<exists>f s'. getattr_value H s (VInstance i) ''init'' = (Inr (VInitFunction f i), s') \<and>
           fn_name f = fn_name m \<and> fn_params f = fn_params m \<and> fn_body f = fn_body m \<and>
           fn_ctx f = length (frames s) # fn_ctx m \<and>
           frame_at s' (length (frames s)) = [(''this'', VInstance i)]"
  using assms
  by (simp add: getattr_value_def instance_getattr_def bind_def push_def new_function_def
        is_dunder_def frame_at_def Let_def)

text \<open>
  Claim C3, as amended. \<open>LoxClass.__call__\<close> constructs a fresh instance of the class, with
  no field (its address is not in use before the call). If \<open>init\<close> resolves through the
  class chain, it is bound to that instance and called with the arguments, and whatever
  value \<open>v\<close> that call returns, the call of the class evaluates to the instance; with no
  \<open>init\<close> and no argument it evaluates to the instance as well. Likewise
  \<open>LoxInitFunction.__call__\<close> runs the function and evaluates to its instance whatever
  the function returns. \<open>Getattr\<close> of \<open>init\<close> on an instance yields such a
  \<open>LoxInitFunction\<close> (the method of the class chain, its context extended with the
  frame \<open>{this: instance}\<close>) only if the instance has no field named \<open>init\<close>: a field
  of that name comes first, and \<open>Getattr\<close> yields the value of the field.
\<close>

theorem class_call_returns_instance:
  "(new_instance s k = (i, s') \<longrightarrow>
      instance_at s i = None \<and> instance_at s' i = Some (LoxInstance k [])) \<and>
   (new_instance s k = (i, s') \<and> get_method k ''init'' = Inr initializer \<and>
    bind s' initializer (VInstance i) = (bound_initializer, s'') \<and>
    call_function be bound_initializer args s'' = Some (Inr v, s''')
      \<longrightarrow> class_call be k args s = Some (Inr (VInstance i), s''')) \<and>
   (new_instance s k = (i, s') \<and> get_method k ''init'' = Inl e
      \<longrightarrow> class_call be k [] s = Some (Inr (VInstance i), s')) \<and>
   (call_function be f args s = Some (Inr v, s''')
      \<longrightarrow> call_value be (VInitFunction f j) args s = Some (Inr (VInstance j), s''')) \<and>
   (instance_at s j = Some obj \<and> map_of (inst_fields obj) ''init'' = None \<and>
    get_method (klass obj) ''init'' = Inr m
      \<longrightarrow> (\<exists>g t. getattr_value H s (VInstance j) ''init'' = (Inr (VInitFunction g j), t) \<and>
                 fn_name g = fn_name m \<and> fn_params g = fn_params m \<and>
                 fn_body g = fn_body m \<and> fn_ctx g = length (frames s) # fn_ctx m \<and>
                 frame_at t (length (frames s)) = [(''this'', VInstance j)])) \<and>
   (instance_at s j = Some obj \<and> map_of (inst_fields obj) ''init'' = Some w
      \<longrightarrow> getattr_value H s (VInstance j) ''init'' = (Inr w, s))"
proof (intro conjI impI)
  assume "new_instance s k = (i, s')"
  then show "instance_at s i = None" "instance_at s' i = Some (LoxInstance k [])"
    by (simp_all add: new_instance_fresh)
next
  assume "new_instance s k = (i, s') \<and> get_method k ''init'' = Inr initializer \<and>
    bind s' initializer (VInstance i) = (bound_initializer, s'') \<and>
    call_function be bound_initializer args s'' = Some (Inr v, s''')"
  then show "class_call be k args s = Some (Inr (VInstance i), s''')"
    by (simp add: class_call_def)
next
  assume "new_instance s k = (i, s') \<and> get_method k ''init'' = Inl e"
  then show "class_call be k [] s = Some (Inr (VInstance i), s')"
    by (simp add: class_call_def class_call_handler_def)
next
  assume "call_function be f args s = Some (Inr v, s''')"
  then show "call_value be (VInitFunction f j) args s = Some (Inr (VInstance j), s''')"
    by (rule call_init_function)
next
  assume "instance_at s j = Some obj \<and> map_of (inst_fields obj) ''init'' = None \<and>
    get_method (klass obj) ''init'' = Inr m"
  then show "\<exists>g t. getattr_value H s (VInstance j) ''init'' = (Inr (VInitFunction g j), t) \<and>
                 fn_name g = fn_name m \<and> fn_params g = fn_params m \<and>
                 fn_body g = fn_body m \<and> fn_ctx g = length (frames s) # fn_ctx m \<and>
                 frame_at t (length (frames s)) = [(''this'', VInstance j)]"
    using getattr_init [of s j obj m H] by blast
next
  assume "instance_at s j = Some obj \<and> map_of (inst_fields obj) ''init'' = Some w"
  then show "getattr_value H s (VInstance j) ''init'' = (Inr w, s)"
    by (simp add: getattr_value_def instance_getattr_def is_dunder_def)
qed

lemma run_point_program:
  "run 20 H point_program = Some (Inr (), [''P instance'', ''42'', ''P instance'', ''z''])"
  by (simp add: point_program_def run_simps is_dunder_def show_float_42 cong: bind_result_weak_cong)

lemma call_point_init:
  "\<exists>t. call_function (eval_block 6 H)
          (fst (bind (snd (new_instance initial_state point_class)) point_init (VInstance 0)))
          [VNumber (Finite False [4, 2] 2)]
          (snd (bind (snd (new_instance initial_state point_class)) point_init (VInstance 0))) =
        Some (Inr (VNumber (Finite False [7] 1)), t)"
  by (simp add: point_class_def point_init_def run_simps cong: bind_result_weak_cong)

theorem class_call_returns_instance_witness:
  "\<forall>H. new_instance initial_state point_class =
          (0, snd (new_instance initial_state point_class)) \<and>
        instance_at initial_state 0 = None \<and>
        instance_at (snd (new_instance initial_state point_class)) 0 =
          Some (LoxInstance point_class []) \<and>
        get_method point_class ''init'' = Inr point_init \<and>
        (\<exists>t. call_function (eval_block 6 H)
               (fst (bind (snd (new_instance initial_state point_class)) point_init (VInstance 0)))
               [VNumber (Finite False [4, 2] 2)]
               (snd (bind (snd (new_instance initial_state point_class)) point_init
                      (VInstance 0))) =
             Some (Inr (VNumber (Finite False [7] 1)), t) \<and>
             class_call (eval_block 6 H) point_class [VNumber (Finite False [4, 2] 2)]
               initial_state = Some (Inr (VInstance 0), t)) \<and>
        run 20 H point_program = Some (Inr (), [''P instance'', ''42'', ''P instance'', ''z''])"
proof (intro allI)
  fix H
  let ?s' = "snd (new_instance initial_state point_class)"
  let ?b = "fst (bind ?s' point_init (VInstance 0))"
  let ?s'' = "snd (bind ?s' point_init (VInstance 0))"
  have new: "new_instance initial_state point_class = (0, ?s')"
    by (simp add: new_instance_def initial_state_def)
  have init: "get_method point_class ''init'' = Inr point_init"
    by (simp add: point_class_def)
  have bound: "bind ?s' point_init (VInstance 0) = (?b, ?s'')"
    by simp
  from call_point_init [of H] obtain t where
    call: "call_function (eval_block 6 H) ?b [VNumber (Finite False [4, 2] 2)] ?s'' =
             Some (Inr (VNumber (Finite False [7] 1)), t)"
    by blast
  from class_call_returns_instance [where s = initial_state and k = point_class and i = 0
      and s' = ?s' and initializer = point_init and bound_initializer = ?b and s'' = ?s''
      and be = "eval_block 6 H" and args = "[VNumber (Finite False [4, 2] 2)]"
      and v = "VNumber (Finite False [7] 1)" and s''' = t]
    new init bound call
  have "instance_at initial_state 0 = None"
    and "instance_at ?s' 0 = Some (LoxInstance point_class [])"
    and "class_call (eval_block 6 H) point_class [VNumber (Finite False [4, 2] 2)]
           initial_state = Some (Inr (VInstance 0), t)"
    by blast+
  with new init call run_point_program [of H]
  show "new_instance initial_state point_class =
          (0, snd (new_instance initial_state point_class)) \<and>
        instance_at initial_state 0 = None \<and>
        instance_at (snd (new_instance initial_state point_class)) 0 =
          Some (LoxInstance point_class []) \<and>
        get_method point_class ''init'' = Inr point_init \<and>
        (\<exists>t. call_function (eval_block 6 H)
               (fst (bind (snd (new_instance initial_state point_class)) point_init (VInstance 0)))
               [VNumber (Finite False [4, 2] 2)]
               (snd (bind (snd (new_instance initial_state point_class)) point_init
                      (VInstance 0))) =
             Some (Inr (VNumber (Finite False [7] 1)), t) \<and>
             class_call (eval_block 6 H) point_class [VNumber (Finite False [4, 2] 2)]
               initial_state = Some (Inr (VInstance 0), t)) \<and>
        run 20 H point_program = Some (Inr (), [''P instance'', ''42'', ''P instance'', ''z''])"
    by blast
qed

text \<open>
  Claim C3 as stated fails for \<open>Getattr\<close>: after \<open>p.init = f\<close> the field \<open>init\<close> hides the
  method, \<open>p.init\<close> is the function \<open>f\<close> and \<open>p.init()\<close> evaluates to the string that
  \<open>f\<close> returns, not to the instance: the program prints \<open>seven\<close>, not \<open>P instance\<close>.
\<close>

theorem getattr_init_field_counterexample:
  "\<forall>H. run 20 H shadowed_init_program = Some (Inr (), [''seven'']) \<and>
        run 20 H shadowed_init_program \<noteq> Some (Inr (), [''P instance''])"
  by (simp add: shadowed_init_program_def run_simps is_dunder_def cong: bind_result_weak_cong)

section \<open>Propagation of runtime errors\<close>

text \<open>
  Claim C4 at the input \<open>failing_init_program\<close>. The \<open>LoxError\<close> that \<open>-"x"\<close> raises
  inside \<open>init\<close> does not reach the host: the handler of \<open>LoxClass.__call__\<close>, written
  for a class without \<open>init\<close>, catches it, the instantiation \<open>A()\<close> returns the
  instance, and the program goes on to print \<open>after\<close> and ends without an error. The same
  statement at the top level halts the program, as the claim says.
\<close>

theorem init_error_is_swallowed:
  "run 20 H failing_init_program = Some (Inr (), [''before'', ''after'']) \<and>
   run 20 H failing_statement_program =
     Some (Inl (LoxError ''Operand must be a number.''), [''before''])"
  by (simp add: failing_init_program_def failing_statement_program_def run_simps neg_def
        cong: bind_result_weak_cong)

section \<open>Attributes of the Python objects\<close>

text \<open>
  Claim C6 at the input \<open>klass_program\<close>. The instance \<open>a\<close> has no field and its class
  no method of the name \<open>klass\<close>, and yet \<open>a.klass\<close> evaluates to the class \<open>A\<close> (the
  program prints \<open>A\<close>): \<open>Getattr.eval\<close> calls Python's \<open>getattr\<close>, which finds the
  attribute \<open>klass\<close> of the Python object before it consults \<open>__getattr__\<close>. The name
  \<open>missing\<close> on the same instance raises the \<open>LoxError\<close> of the claim.
\<close>

theorem getattr_instance_klass:
  "run 12 H klass_program = Some (Inl (LoxError (campo_nao_existe ''missing'')), [''A''])"
  by (simp add: klass_program_def run_simps is_dunder_def cong: bind_result_weak_cong)

text \<open>
  Claim C9 at the input \<open>function_name_program\<close>. \<open>Getattr\<close> on a Function raises no
  error for the name \<open>name\<close>: \<open>f.name\<close> evaluates to the string \<open>f\<close>, the field \<open>name\<close>
  of the \<open>LoxFunction\<close> object, and the program prints it.
\<close>

theorem getattr_function_name:
  "run 6 H function_name_program = Some (Inr (), [''f''])"
  by (simp add: function_name_program_def run_simps cong: bind_result_weak_cong)

section \<open>Soundness of the validation\<close>































end
